theory Spec2Isabelle
  imports Main
begin

section \<open>Strings and the two date patterns\<close>

text \<open>
  Names, prefixes and keys are \<open>string\<close>s (their UTF-8 bytes). Every character the
  program inspects (digits, \<open>-\<close>, \<open>T\<close>, \<open>:\<close>, \<open>/\<close>) is ASCII, and an ASCII byte never
  occurs inside a multi-byte UTF-8 sequence, so searching bytes finds what the
  JavaScript string operations find.
\<close>

definition isDigit :: "char \<Rightarrow> bool" where
  \<comment> \<open>\<open>\d\<close> of a JavaScript regular expression without the \<open>u\<close>/\<open>i\<close> flags: 0-9 only.\<close>
  "isDigit c = (let n = (of_char c :: nat) in 48 \<le> n \<and> n \<le> 57)"

datatype cls = Digit | OneOf "char list"

fun inClass :: "cls \<Rightarrow> char \<Rightarrow> bool" where
  "inClass Digit c = isDigit c"
| "inClass (OneOf cs) c = (c \<in> set cs)"

definition dateRegex :: "cls list" where
  \<comment> \<open>\<open>/(\d{4})-(\d{2})-(\d{2})/\<close>, part_000 line 39\<close>
  "dateRegex =
     [Digit, Digit, Digit, Digit, OneOf ''-'', Digit, Digit, OneOf ''-'', Digit, Digit]"

definition timestampRegex :: "cls list" where
  \<comment> \<open>\<open>/(\d{4})-(\d{2})-(\d{2})[-T](\d{2})[-:](\d{2})[-:](\d{2})/\<close>, part_000 line 31\<close>
  "timestampRegex =
     dateRegex @ [OneOf ''-T'', Digit, Digit, OneOf ''-:'', Digit, Digit,
                  OneOf ''-:'', Digit, Digit]"

fun matchHere :: "cls list \<Rightarrow> string \<Rightarrow> bool" where
  "matchHere [] s = True"
| "matchHere (p # ps) [] = False"
| "matchHere (p # ps) (c # cs) = (inClass p c \<and> matchHere ps cs)"

fun regexMatch :: "cls list \<Rightarrow> string \<Rightarrow> string option" where
  \<comment> \<open>\<open>s.match(re)\<close> for a pattern of single-character classes without the \<open>g\<close>
      flag: the text of the leftmost match, or \<open>None\<close> for \<open>null\<close>.\<close>
  "regexMatch ps [] = (if matchHere ps [] then Some [] else None)"
| "regexMatch ps (c # cs) =
     (if matchHere ps (c # cs) then Some (take (length ps) (c # cs))
      else regexMatch ps cs)"

definition slice :: "'a list \<Rightarrow> nat \<Rightarrow> nat \<Rightarrow> 'a list" where
  \<comment> \<open>\<open>xs.slice(a, b)\<close> for \<open>0 \<le> a\<close>: the elements at indices \<open>a \<le> i < b\<close> that exist.\<close>
  "slice xs a b = take (b - a) (drop a xs)"

fun digitsToNat :: "nat \<Rightarrow> string \<Rightarrow> nat" where
  "digitsToNat acc [] = acc"
| "digitsToNat acc (c # cs) = digitsToNat (10 * acc + (of_char c - 48)) cs"

section \<open>Dates\<close>

text \<open>
  A JavaScript \<open>Date\<close> holds a time value: an integral number of milliseconds since
  the epoch, or NaN (an invalid date). The relational operators convert both
  operands to their time values, and every comparison with NaN is false.
\<close>

datatype js_date = InvalidDate | TimeValue int

fun date_lt :: "js_date \<Rightarrow> js_date \<Rightarrow> bool" where
  "date_lt (TimeValue a) (TimeValue b) = (a < b)"
| "date_lt _ _ = False"

fun date_ge :: "js_date \<Rightarrow> js_date \<Rightarrow> bool" where
  "date_ge (TimeValue a) (TimeValue b) = (a \<ge> b)"
| "date_ge _ _ = False"

definition msPerDay :: int where
  "msPerDay = 86400000"

definition TimeClip :: "int \<Rightarrow> js_date" where
  "TimeClip t = (if \<bar>t\<bar> > 8640000000000000 then InvalidDate else TimeValue t)"

definition isLeapYear :: "int \<Rightarrow> bool" where
  "isLeapYear y = (y mod 4 = 0 \<and> (y mod 100 \<noteq> 0 \<or> y mod 400 = 0))"

definition DayFromYear :: "int \<Rightarrow> int" where
  "DayFromYear y =
     365 * (y - 1970) + (y - 1969) div 4 - (y - 1901) div 100 + (y - 1601) div 400"

definition daysBeforeMonth :: "int \<Rightarrow> bool \<Rightarrow> int" where
  \<comment> \<open>day within the year of the first day of month \<open>m\<close> (0 = January)\<close>
  "daysBeforeMonth m leap =
     (let l = (if leap then 1 else 0) in
      if m = 0 then 0 else if m = 1 then 31 else if m = 2 then 59 + l
      else if m = 3 then 90 + l else if m = 4 then 120 + l else if m = 5 then 151 + l
      else if m = 6 then 181 + l else if m = 7 then 212 + l else if m = 8 then 243 + l
      else if m = 9 then 273 + l else if m = 10 then 304 + l else 334 + l)"

definition MakeDay :: "int \<Rightarrow> int \<Rightarrow> int \<Rightarrow> int" where
  \<comment> \<open>ECMAScript MakeDay: month is 0-based and may lie outside 0..11; a day beyond
      the month's length runs into the following months.\<close>
  "MakeDay year month dt =
     (let ym = year + month div 12; mn = month mod 12
      in DayFromYear ym + daysBeforeMonth mn (isLeapYear ym) + dt - 1)"

definition MakeTime :: "int \<Rightarrow> int \<Rightarrow> int \<Rightarrow> int \<Rightarrow> int" where
  "MakeTime h m s ms = h * 3600000 + m * 60000 + s * 1000 + ms"

definition MakeDate :: "int \<Rightarrow> int \<Rightarrow> int" where
  "MakeDate day time = day * msPerDay + time"

definition civilFromDay :: "int \<Rightarrow> int \<times> int \<times> int" where
  \<comment> \<open>year, month (0-based) and day of the month of a day number: what ECMAScript's
      YearFromTime, MonthFromTime and DateFromTime return for a time on that day.\<close>
  "civilFromDay day =
     (let z = day + 719468;
          era = z div 146097;
          doe = z - era * 146097;
          yoe = (doe - doe div 1460 + doe div 36524 - doe div 146096) div 365;
          doy = doe - (365 * yoe + yoe div 4 - yoe div 100);
          mp = (5 * doy + 2) div 153;
          d = doy - (153 * mp + 2) div 5 + 1;
          m = (if mp < 10 then mp + 3 else mp - 9);
          y = yoe + era * 400 + (if m \<le> 2 then 1 else 0)
      in (y, m - 1, d))"

definition isoDate :: "nat \<Rightarrow> nat \<Rightarrow> nat \<Rightarrow> nat \<Rightarrow> nat \<Rightarrow> nat \<Rightarrow> js_date" where
  \<comment> \<open>\<open>new Date(`${year}-${month}-${day}T${hour}:${minute}:${second}Z`)\<close> for groups
      of 4, 2, 2, 2, 2, 2 digits: the string has the shape of the ECMAScript date
      time format with the UTC designator, so only the field values decide. A field
      out of range gives NaN: month 01-12, day 01-31, hour 00-23 or 24:00:00,
      minute and second 00-59. Node's parser takes a day up to 31 in every month
      and lets MakeDay carry it over.\<close>
  "isoDate year month day hour minute second =
     (if 1 \<le> month \<and> month \<le> 12 \<and> 1 \<le> day \<and> day \<le> 31 \<and>
         (hour \<le> 23 \<or> (hour = 24 \<and> minute = 0 \<and> second = 0)) \<and>
         minute \<le> 59 \<and> second \<le> 59
      then TimeClip (MakeDate (MakeDay (int year) (int month - 1) (int day))
                              (MakeTime (int hour) (int minute) (int second) 0))
      else InvalidDate)"

definition extractDateFromBackupName :: "string \<Rightarrow> js_date option" where
  "extractDateFromBackupName backupName =
     (case regexMatch timestampRegex backupName of
        Some m \<Rightarrow>
          Some (isoDate (digitsToNat 0 (slice m 0 4)) (digitsToNat 0 (slice m 5 7))
                        (digitsToNat 0 (slice m 8 10)) (digitsToNat 0 (slice m 11 13))
                        (digitsToNat 0 (slice m 14 16)) (digitsToNat 0 (slice m 17 19)))
      | None \<Rightarrow>
          (case regexMatch dateRegex backupName of
             Some m \<Rightarrow>
               Some (isoDate (digitsToNat 0 (slice m 0 4)) (digitsToNat 0 (slice m 5 7))
                             (digitsToNat 0 (slice m 8 10)) 0 0 0)
           | None \<Rightarrow> None))"

section \<open>Retention days\<close>

text \<open>
  A JavaScript number that holds a count of days is modelled by its integer value;
  a \<open>days\<close> option that is NaN or has a fraction is outside the model.
  \<open>parseInt\<close> returns NaN (\<open>None\<close>) or an integer; above \<open>2^53\<close> the program would
  see the nearest double instead of the exact integer, which is far beyond the range
  of dates either way.
\<close>

definition whiteSpaceLength :: "string \<Rightarrow> nat" where
  \<comment> \<open>number of bytes of the white space or line terminator character at the head
      of the string (ECMAScript StrWhiteSpaceChar, in UTF-8), 0 if there is none\<close>
  "whiteSpaceLength s =
     (let bs = (map of_char (take 3 s) :: nat list) in
      if take 1 bs \<in> set [[9], [10], [11], [12], [13], [32]] then 1
      else if take 2 bs = [194, 160] then 2
      else if bs \<in> set ([[225, 154, 128], [226, 128, 168], [226, 128, 169],
                          [226, 128, 175], [226, 129, 159], [227, 128, 128],
                          [239, 187, 191]] @ map (\<lambda>b. [226, 128, b]) [128..<139])
      then 3 else 0)"

function skipWhiteSpace :: "string \<Rightarrow> string" where
  "skipWhiteSpace s =
     (if s \<noteq> [] \<and> whiteSpaceLength s > 0 then skipWhiteSpace (drop (whiteSpaceLength s) s)
      else s)"
  by pat_completeness auto
termination
  by (relation "measure length") auto

definition parseInt :: "string \<Rightarrow> int option" where
  \<comment> \<open>\<open>parseInt(s, 10)\<close>: leading white space is skipped, one sign is read, then the
      longest run of decimal digits; whatever follows is ignored. No digit: NaN.\<close>
  "parseInt s =
     (let t = skipWhiteSpace s;
          neg = (t \<noteq> [] \<and> hd t = CHR ''-'');
          u = (if t \<noteq> [] \<and> (hd t = CHR ''-'' \<or> hd t = CHR ''+'') then tl t else t);
          z = takeWhile isDigit u
      in if z = [] then None
         else Some ((if neg then - 1 else 1) * int (digitsToNat 0 z)))"

definition DEFAULT_PRUNE_DAYS :: int where
  "DEFAULT_PRUNE_DAYS = 14"

datatype error =
    MissingEnv string
  | ServiceError string
  | NoBackupFound string string
  | RangeError

datatype console_line =
    InvalidPruneDaysWarning string
  | PruneHeader int
  | CutoffLine int
  | DryRunBanner
  | ListingLine string string
  | UnparsableWarning string
  | NoBackupsFound
  | FoundSummary nat nat nat
  | NoBackupsToPrune
  | ToBeDeletedHeader
  | ToBeDeletedLine string js_date
  | BlankLine
  | DryRunComplete
  | DeletedLine string nat
  | FailedToDelete string error
  | PruneComplete nat
  | ErrorsLine nat
  | FailedToPrune error

definition getPruneDays :: "int option \<Rightarrow> string option \<Rightarrow> int \<times> console_line list" where
  \<comment> \<open>the second argument is \<open>process.env.PRUNE_DAYS\<close>; the second result is what
      was written to the console\<close>
  "getPruneDays optionDays envDays =
     (case optionDays of
        Some d \<Rightarrow> (d, [])
      | None \<Rightarrow>
          (case envDays of
             None \<Rightarrow> (DEFAULT_PRUNE_DAYS, [])
           | Some e \<Rightarrow>
               if e = [] then (DEFAULT_PRUNE_DAYS, [])
               else (case parseInt e of
                       Some parsed \<Rightarrow>
                         if parsed > 0 then (parsed, [])
                         else (DEFAULT_PRUNE_DAYS, [InvalidPruneDaysWarning e])
                     | None \<Rightarrow> (DEFAULT_PRUNE_DAYS, [InvalidPruneDaysWarning e]))))"

section \<open>Configuration\<close>

text \<open>
  The fields of \<open>Config\<close> that the prune command reads, and every check of
  \<open>loadConfig\<close> that can throw, in the order the object literal evaluates them.
  \<open>mongodb.uri\<close> (\<open>buildMongoUri\<close>) is not read by the prune command and is left out.
\<close>

record config =
  mongodb_database :: string
  aws_accessKeyId :: string
  aws_secretAccessKey :: string
  aws_region :: string
  aws_endpoint :: "string option"
  s3_bucket :: string
  s3_prefix :: string
  mongodumpPath :: string

type_synonym environment = "string \<Rightarrow> string option"

definition getEnvOrThrow :: "environment \<Rightarrow> string \<Rightarrow> error + string" where
  "getEnvOrThrow env key =
     (case env key of
        None \<Rightarrow> Inl (MissingEnv key)
      | Some v \<Rightarrow> if v = [] then Inl (MissingEnv key) else Inr v)"

definition envOr :: "environment \<Rightarrow> string \<Rightarrow> string \<Rightarrow> string" where
  \<comment> \<open>\<open>process.env.KEY || fallback\<close>\<close>
  "envOr env key fallback =
     (case env key of None \<Rightarrow> fallback | Some v \<Rightarrow> if v = [] then fallback else v)"

definition loadConfig :: "environment \<Rightarrow> error + config" where
  \<comment> \<open>\<open>loadConfig()\<close> declares no parameter: whatever a caller passes is discarded.\<close>
  "loadConfig env =
     (case getEnvOrThrow env ''MONGODB_DATABASE'' of
        Inl e \<Rightarrow> Inl e
      | Inr db \<Rightarrow>
     (case getEnvOrThrow env ''AWS_ACCESS_KEY_ID'' of
        Inl e \<Rightarrow> Inl e
      | Inr keyId \<Rightarrow>
     (case getEnvOrThrow env ''AWS_SECRET_ACCESS_KEY'' of
        Inl e \<Rightarrow> Inl e
      | Inr secret \<Rightarrow>
     (case getEnvOrThrow env ''S3_BUCKET'' of
        Inl e \<Rightarrow> Inl e
      | Inr bucket \<Rightarrow>
          Inr \<lparr> mongodb_database = db,
                aws_accessKeyId = keyId,
                aws_secretAccessKey = secret,
                aws_region = envOr env ''AWS_REGION'' ''us-east-1'',
                aws_endpoint =
                  (case env ''AWS_ENDPOINT'' of
                     None \<Rightarrow> None | Some v \<Rightarrow> if v = [] then None else Some v),
                s3_bucket = bucket,
                s3_prefix = envOr env ''S3_PREFIX'' ''backups/mongodb'',
                mongodumpPath = envOr env ''MONGODUMP_PATH'' ''mongodump'' \<rparr>))))"

section \<open>The object-storage client\<close>

text \<open>
  \<open>client.send(command)\<close> reaches a service outside the program. The service is a
  parameter: a function from the request and the service's state to a response (or
  the message of the error it throws) and the new state. Every function that talks
  to the service or to the console takes the service's state and returns its
  result, the service's new state and the events it caused, in order: the requests
  it sent and the lines it printed.
\<close>

datatype s3_request =
    ListObjectsV2 string string "string option"
  | DeleteObjects string "string list"

datatype s3_output =
    ListObjectsV2Output "string option list option" "string option list option"
  | DeleteObjectsOutput

fun Contents :: "s3_output \<Rightarrow> string option list option" where
  "Contents (ListObjectsV2Output cs ps) = cs"
| "Contents DeleteObjectsOutput = None"

fun CommonPrefixes :: "s3_output \<Rightarrow> string option list option" where
  "CommonPrefixes (ListObjectsV2Output cs ps) = ps"
| "CommonPrefixes DeleteObjectsOutput = None"

type_synonym 'w s3_client = "s3_request \<Rightarrow> 'w \<Rightarrow> (string + s3_output) \<times> 'w"

datatype event = Sent s3_request | Printed console_line

fun requests :: "event list \<Rightarrow> s3_request list" where
  "requests [] = []"
| "requests (Sent r # t) = r # requests t"
| "requests (Printed l # t) = requests t"

fun printed :: "event list \<Rightarrow> console_line list" where
  "printed [] = []"
| "printed (Sent r # t) = printed t"
| "printed (Printed l # t) = l # printed t"

definition send :: "'w s3_client \<Rightarrow> s3_request \<Rightarrow> 'w \<Rightarrow> (error + s3_output) \<times> 'w \<times> event list" where
  "send client req w =
     (case client req w of
        (Inl msg, w') \<Rightarrow> (Inl (ServiceError msg), w', [Sent req])
      | (Inr out, w') \<Rightarrow> (Inr out, w', [Sent req]))"

section \<open>Listing backups\<close>

record BackupWithDate =
  name :: string
  date :: js_date

definition endsWith :: "string \<Rightarrow> string \<Rightarrow> bool" where
  "endsWith s suffix = (length suffix \<le> length s \<and> drop (length s - length suffix) s = suffix)"

definition startsWith :: "string \<Rightarrow> string \<Rightarrow> bool" where
  "startsWith s pre = (take (length pre) s = pre)"

fun removeFirst :: "string \<Rightarrow> string \<Rightarrow> string" where
  \<comment> \<open>\<open>s.replace(pat, "")\<close> with a string pattern: the first occurrence is removed\<close>
  "removeFirst pat [] = []"
| "removeFirst pat (c # cs) =
     (if startsWith (c # cs) pat then drop (length pat) (c # cs)
      else c # removeFirst pat cs)"

fun splitOn :: "char \<Rightarrow> string \<Rightarrow> string list" where
  "splitOn d [] = [[]]"
| "splitOn d (c # cs) =
     (if c = d then [] # splitOn d cs
      else (case splitOn d cs of [] \<Rightarrow> [[c]] | w # ws \<Rightarrow> (c # w) # ws))"

definition folderName :: "string \<Rightarrow> string \<Rightarrow> string" where
  \<comment> \<open>part_000 lines 69-70: the first non-empty segment of \<open>p\<close> without the prefix,
      the empty string if there is none\<close>
  "folderName pre p =
     (case filter (\<lambda>w. w \<noteq> []) (splitOn CHR ''/'' (removeFirst pre p)) of
        [] \<Rightarrow> []
      | w # ws \<Rightarrow> w)"

fun collectBackups ::
  "string \<Rightarrow> string list \<Rightarrow> BackupWithDate list \<Rightarrow> console_line list
     \<Rightarrow> BackupWithDate list \<times> console_line list" where
  \<comment> \<open>the loop of part_000 lines 68-80, with the array \<open>backups\<close> and the warnings
      printed so far; \<open>if (date)\<close> holds for every Date object, also an invalid one,
      and fails for \<open>null\<close> only\<close>
  "collectBackups pre [] backups out = (backups, out)"
| "collectBackups pre (p # ps) backups out =
     (let nm = folderName pre p in
      if nm = [] then collectBackups pre ps backups out
      else (case extractDateFromBackupName nm of
              Some d \<Rightarrow> collectBackups pre ps (backups @ [\<lparr>name = nm, date = d\<rparr>]) out
            | None \<Rightarrow> collectBackups pre ps backups (out @ [UnparsableWarning nm])))"

definition compareBackups :: "BackupWithDate \<Rightarrow> BackupWithDate \<Rightarrow> int" where
  \<comment> \<open>\<open>b.date.getTime() - a.date.getTime()\<close>; \<open>sort\<close> takes a NaN result as 0\<close>
  "compareBackups a b =
     (case (date b, date a) of
        (TimeValue x, TimeValue y) \<Rightarrow> x - y
      | _ \<Rightarrow> 0)"

fun insertBackup :: "BackupWithDate \<Rightarrow> BackupWithDate list \<Rightarrow> BackupWithDate list" where
  "insertBackup a [] = [a]"
| "insertBackup a (b # bs) =
     (if compareBackups a b \<le> 0 then a # b # bs else b # insertBackup a bs)"

definition sortBackups :: "BackupWithDate list \<Rightarrow> BackupWithDate list" where
  \<comment> \<open>\<open>backups.sort(cmp)\<close> as a stable insertion sort. With invalid dates in the
      array the comparator is not consistent and the order JavaScript produces is
      implementation-defined; the elements are the same in every case.\<close>
  "sortBackups bs = foldr insertBackup bs []"

definition listingPrefix :: "config \<Rightarrow> string" where
  \<comment> \<open>part_000 line 52\<close>
  "listingPrefix cfg =
     (if endsWith (s3_prefix cfg) ''/'' then s3_prefix cfg else s3_prefix cfg @ ''/'')"

definition prefixesOf :: "s3_output \<Rightarrow> string list" where
  \<comment> \<open>part_000 line 63: \<open>response.CommonPrefixes?.map((p) => p.Prefix || "") || []\<close>\<close>
  "prefixesOf response =
     (case CommonPrefixes response of
        None \<Rightarrow> []
      | Some ps \<Rightarrow> map (\<lambda>p. case p of None \<Rightarrow> [] | Some x \<Rightarrow> x) ps)"

definition listBackupsWithDates ::
  "'w s3_client \<Rightarrow> config \<Rightarrow> 'w \<Rightarrow> (error + BackupWithDate list) \<times> 'w \<times> event list" where
  "listBackupsWithDates client cfg w =
     (let pre = listingPrefix cfg;
          line = Printed (ListingLine (s3_bucket cfg) pre)
      in case send client (ListObjectsV2 (s3_bucket cfg) pre (Some ''/'')) w of
           (Inl e, w1, t) \<Rightarrow> (Inl e, w1, line # t)
         | (Inr response, w1, t) \<Rightarrow>
             (case collectBackups pre (prefixesOf response) [] [] of
                (backups, warnings) \<Rightarrow>
                  (Inr (sortBackups backups), w1, line # t @ map Printed warnings)))"

section \<open>Deleting one backup\<close>

record DeleteResult =
  backupName :: string
  deletedFiles :: nat

definition batchSize :: nat where
  "batchSize = 1000"

function deleteLoop ::
  "'w s3_client \<Rightarrow> string \<Rightarrow> string list \<Rightarrow> nat \<Rightarrow> nat \<Rightarrow> 'w \<Rightarrow> (error + nat) \<times> 'w \<times> event list" where
  \<comment> \<open>the loop of part_000 lines 118-131, from index \<open>i\<close> with \<open>totalDeleted = tot\<close>\<close>
  "deleteLoop client bkt objectsToDelete i tot w =
     (if i < length objectsToDelete then
        (let batch = slice objectsToDelete i (i + batchSize) in
         case send client (DeleteObjects bkt batch) w of
           (Inl e, w1, t) \<Rightarrow> (Inl e, w1, t)
         | (Inr out, w1, t) \<Rightarrow>
             (case deleteLoop client bkt objectsToDelete (i + batchSize) (tot + length batch) w1 of
                (r, w2, t') \<Rightarrow> (r, w2, t @ t')))
      else (Inr tot, w, []))"
  by pat_completeness auto
termination
  by (relation "measure (\<lambda>(client, bkt, objs, i, tot, w). length objs - i)")
     (auto simp: batchSize_def)

definition keysOf :: "string option list \<Rightarrow> string list" where
  \<comment> \<open>\<open>objects.filter((obj) => obj.Key).map((obj) => ({ Key: obj.Key! }))\<close>: an
      undefined or empty key is dropped\<close>
  "keysOf objects =
     concat (map (\<lambda>obj. case obj of None \<Rightarrow> [] | Some k \<Rightarrow> if k = [] then [] else [k]) objects)"

definition backupPath :: "config \<Rightarrow> string \<Rightarrow> string" where
  \<comment> \<open>part_000 line 90\<close>
  "backupPath cfg bn = s3_prefix cfg @ ''/'' @ bn"

definition deleteBackup ::
  "'w s3_client \<Rightarrow> config \<Rightarrow> string \<Rightarrow> 'w \<Rightarrow> (error + DeleteResult) \<times> 'w \<times> event list" where
  "deleteBackup client cfg bn w =
     (let s3Prefix = backupPath cfg bn in
      case send client (ListObjectsV2 (s3_bucket cfg) s3Prefix None) w of
        (Inl e, w1, t) \<Rightarrow> (Inl e, w1, t)
      | (Inr listResponse, w1, t) \<Rightarrow>
          (let objects = (case Contents listResponse of None \<Rightarrow> [] | Some os \<Rightarrow> os) in
           if length objects = 0 then (Inl (NoBackupFound (s3_bucket cfg) s3Prefix), w1, t)
           else
             (let objectsToDelete = keysOf objects in
              if length objectsToDelete = 0
              then (Inr \<lparr>backupName = bn, deletedFiles = 0\<rparr>, w1, t)
              else (case deleteLoop client (s3_bucket cfg) objectsToDelete 0 0 w1 of
                      (Inl e, w2, t') \<Rightarrow> (Inl e, w2, t @ t')
                    | (Inr totalDeleted, w2, t') \<Rightarrow>
                        (Inr \<lparr>backupName = bn, deletedFiles = totalDeleted\<rparr>, w2, t @ t')))))"

section \<open>The prune command\<close>

record PruneOptions =
  bucket :: "string option"
  prefix :: "string option"
  days :: "int option"
  dryRun :: "bool option"

record timezone =
  localOffset :: "int \<Rightarrow> int"
  utcOffset :: "int \<Rightarrow> int"

definition LocalTime :: "timezone \<Rightarrow> int \<Rightarrow> int" where
  "LocalTime tz t = t + localOffset tz t"

definition UTC :: "timezone \<Rightarrow> int \<Rightarrow> int" where
  "UTC tz t = t - utcOffset tz t"

definition getDate :: "timezone \<Rightarrow> js_date \<Rightarrow> int option" where
  \<comment> \<open>\<open>d.getDate()\<close>: the day of the month in local time, NaN for an invalid date\<close>
  "getDate tz d =
     (case d of
        InvalidDate \<Rightarrow> None
      | TimeValue tv \<Rightarrow>
          (case civilFromDay (LocalTime tz tv div msPerDay) of (y, m, dt) \<Rightarrow> Some dt))"

definition setDate :: "timezone \<Rightarrow> js_date \<Rightarrow> int option \<Rightarrow> js_date" where
  \<comment> \<open>the date \<open>d\<close> holds after \<open>d.setDate(dt)\<close>\<close>
  "setDate tz d dt =
     (case d of
        InvalidDate \<Rightarrow> InvalidDate
      | TimeValue tv \<Rightarrow>
          (case dt of
             None \<Rightarrow> InvalidDate
           | Some n \<Rightarrow>
               (let t = LocalTime tz tv in
                case civilFromDay (t div msPerDay) of
                  (y, m, dt0) \<Rightarrow>
                    TimeClip (UTC tz (MakeDate (MakeDay y m n) (t mod msPerDay))))))"

definition cutoffDate :: "timezone \<Rightarrow> int \<Rightarrow> int \<Rightarrow> js_date" where
  \<comment> \<open>prune.ts lines 30-31, \<open>now\<close> being the time value of \<open>new Date()\<close>\<close>
  "cutoffDate tz now pruneDays =
     setDate tz (TimeValue now)
       (map_option (\<lambda>today. today - pruneDays) (getDate tz (TimeValue now)))"

definition backupsToDelete :: "js_date \<Rightarrow> BackupWithDate list \<Rightarrow> BackupWithDate list" where
  \<comment> \<open>prune.ts line 49\<close>
  "backupsToDelete cutoff backups = filter (\<lambda>b. date_lt (date b) cutoff) backups"

definition backupsToKeep :: "js_date \<Rightarrow> BackupWithDate list \<Rightarrow> BackupWithDate list" where
  \<comment> \<open>prune.ts line 50\<close>
  "backupsToKeep cutoff backups = filter (\<lambda>b. date_ge (date b) cutoff) backups"

fun deleteAll ::
  "'w s3_client \<Rightarrow> config \<Rightarrow> BackupWithDate list \<Rightarrow> nat \<Rightarrow> nat \<Rightarrow> 'w
     \<Rightarrow> (nat \<times> nat) \<times> 'w \<times> event list" where
  \<comment> \<open>the loop of prune.ts lines 75-84; the result is (deletedCount, errorCount)\<close>
  "deleteAll client cfg [] deletedCount errorCount w = ((deletedCount, errorCount), w, [])"
| "deleteAll client cfg (b # bs) deletedCount errorCount w =
     (case deleteBackup client cfg (name b) w of
        (Inr result, w1, t) \<Rightarrow>
          (case deleteAll client cfg bs (deletedCount + 1) errorCount w1 of
             (counts, w2, t') \<Rightarrow>
               (counts, w2, t @ Printed (DeletedLine (name b) (deletedFiles result)) # t'))
      | (Inl e, w1, t) \<Rightarrow>
          (case deleteAll client cfg bs deletedCount (errorCount + 1) w1 of
             (counts, w2, t') \<Rightarrow>
               (counts, w2, t @ Printed (FailedToDelete (name b) e) # t')))"

definition deletionPhase ::
  "'w s3_client \<Rightarrow> config \<Rightarrow> BackupWithDate list \<Rightarrow> 'w \<Rightarrow> nat \<times> 'w \<times> event list" where
  \<comment> \<open>prune.ts lines 72-93; the result is the code given to \<open>process.exit\<close>\<close>
  "deletionPhase client cfg toDelete w =
     (case deleteAll client cfg toDelete 0 0 w of
        ((deletedCount, errorCount), w1, t) \<Rightarrow>
          (if errorCount > 0 then 1 else 0, w1,
           t @ map Printed ([BlankLine, PruneComplete deletedCount]
                            @ (if errorCount > 0 then [ErrorsLine errorCount] else []))))"

datatype outcome = Exit nat | Rejected error

definition pruneBody ::
  "PruneOptions \<Rightarrow> environment \<Rightarrow> js_date \<Rightarrow> 'w s3_client \<Rightarrow> 'w
     \<Rightarrow> (error + nat) \<times> 'w \<times> event list" where
  \<comment> \<open>the \<open>try\<close> block of prune.ts lines 41-93: \<open>Inr code\<close> is \<open>process.exit(code)\<close>,
      \<open>Inl e\<close> is the exception \<open>e\<close> thrown out of the block. The object passed to
      \<open>loadConfig\<close> in line 41 meets no parameter.\<close>
  "pruneBody options env cutoff client w =
     (case loadConfig env of
        Inl e \<Rightarrow> (Inl e, w, [])
      | Inr cfg \<Rightarrow>
     (case listBackupsWithDates client cfg w of
        (Inl e, w1, t1) \<Rightarrow> (Inl e, w1, t1)
      | (Inr backups, w1, t1) \<Rightarrow>
          if length backups = 0 then (Inr 0, w1, t1 @ [Printed NoBackupsFound])
          else
            (let toDelete = backupsToDelete cutoff backups;
                 toKeep = backupsToKeep cutoff backups;
                 t2 = t1 @ [Printed (FoundSummary (length backups) (length toKeep)
                                                  (length toDelete))]
             in if length toDelete = 0 then (Inr 0, w1, t2 @ [Printed NoBackupsToPrune])
                else
                  (let t3 = t2 @ map Printed
                              ([ToBeDeletedHeader]
                               @ map (\<lambda>b. ToBeDeletedLine (name b) (date b)) toDelete
                               @ [BlankLine])
                   in if dryRun options = Some True
                      then (Inr 0, w1, t3 @ [Printed DryRunComplete])
                      else (case deletionPhase client cfg toDelete w1 of
                              (code, w2, t4) \<Rightarrow> (Inr code, w2, t3 @ t4))))))"

definition runPrune ::
  "PruneOptions \<Rightarrow> environment \<Rightarrow> timezone \<Rightarrow> int \<Rightarrow> 'w s3_client \<Rightarrow> 'w
     \<Rightarrow> outcome \<times> 'w \<times> event list" where
  \<comment> \<open>\<open>now\<close> is the time value of \<open>new Date()\<close>. \<open>cutoffDate.toISOString()\<close> (line 34,
      before the \<open>try\<close>) throws a RangeError on an invalid date, which rejects the
      promise.\<close>
  "runPrune options env tz now client w =
     (case getPruneDays (days options) (env ''PRUNE_DAYS'') of
        (pruneDays, warnings) \<Rightarrow>
          (let t0 = map Printed (warnings @ [PruneHeader pruneDays]) in
           case cutoffDate tz now pruneDays of
             InvalidDate \<Rightarrow> (Rejected RangeError, w, t0)
           | TimeValue c \<Rightarrow>
               (let t1 = t0 @ map Printed
                           ([CutoffLine c]
                            @ (if dryRun options = Some True then [DryRunBanner] else []))
                in case pruneBody options env (TimeValue c) client w of
                     (Inr code, w1, t2) \<Rightarrow> (Exit code, w1, t1 @ t2)
                   | (Inl e, w1, t2) \<Rightarrow> (Exit 1, w1, t1 @ t2 @ [Printed (FailedToPrune e)]))))"

fun deleteRuns ::
  "'w s3_client \<Rightarrow> config \<Rightarrow> BackupWithDate list \<Rightarrow> 'w
     \<Rightarrow> ((error + DeleteResult) \<times> event list) list \<times> 'w" where
  \<comment> \<open>not part of the program: what calling \<open>deleteBackup\<close> for each backup in turn
      gives, each call on the service state the one before has left, whether that
      one failed or not: the result and the events of each call, and the final
      state of the service\<close>
  "deleteRuns client cfg [] w = ([], w)"
| "deleteRuns client cfg (b # bs) w =
     (case deleteBackup client cfg (name b) w of
        (r, w1, t) \<Rightarrow>
          (case deleteRuns client cfg bs w1 of (rs, w2) \<Rightarrow> ((r, t) # rs, w2)))"

definition reportLine :: "BackupWithDate \<Rightarrow> (error + DeleteResult) \<times> event list \<Rightarrow> console_line" where
  \<comment> \<open>the line the loop prints after a call: prune.ts line 78 or line 81\<close>
  "reportLine b run =
     (case fst run of
        Inr result \<Rightarrow> DeletedLine (name b) (deletedFiles result)
      | Inl e \<Rightarrow> FailedToDelete (name b) e)"

section \<open>Two services\<close>

text \<open>
  A scripted service answers the requests with the responses it holds, in order.
\<close>

definition scripted :: "(string + s3_output) list s3_client" where
  "scripted req w =
     (case w of [] \<Rightarrow> (Inl ''no response scripted'', []) | r # rs \<Rightarrow> (r, rs))"

text \<open>
  An object store in the manner of S3: each bucket holds a list of keys in key
  order. A listing returns the keys that begin with the requested prefix, at most
  1000 entries per response; with a delimiter, the keys that contain it after the
  prefix are rolled up into common prefixes. A listing without entries has no
  \<open>Contents\<close> field. A deletion removes the named keys; a key that does not exist is
  not an error, and more than 1000 keys in one request are refused.
\<close>

type_synonym store = "string \<Rightarrow> string list"

fun findDelimiter :: "string \<Rightarrow> string \<Rightarrow> nat option" where
  "findDelimiter d [] = None"
| "findDelimiter d (c # cs) =
     (if startsWith (c # cs) d then Some 0 else map_option Suc (findDelimiter d cs))"

definition listEntry :: "string \<Rightarrow> string option \<Rightarrow> string \<Rightarrow> string + string" where
  \<comment> \<open>\<open>Inl\<close> an object key, \<open>Inr\<close> a common prefix\<close>
  "listEntry pre delim k =
     (case delim of
        None \<Rightarrow> Inl k
      | Some d \<Rightarrow>
          (case findDelimiter d (drop (length pre) k) of
             None \<Rightarrow> Inl k
           | Some i \<Rightarrow> Inr (take (length pre + i + length d) k)))"

definition storeService :: "store s3_client" where
  "storeService req w =
     (case req of
        ListObjectsV2 b pre delim \<Rightarrow>
          (let entries = take 1000 (remdups (map (listEntry pre delim)
                                     (filter (\<lambda>k. startsWith k pre) (w b))));
               keys = concat (map (\<lambda>e. case e of Inl k \<Rightarrow> [Some k] | Inr p \<Rightarrow> []) entries);
               cps = concat (map (\<lambda>e. case e of Inl k \<Rightarrow> [] | Inr p \<Rightarrow> [Some p]) entries)
           in (Inr (ListObjectsV2Output (if keys = [] then None else Some keys)
                                        (if cps = [] then None else Some cps)), w))
      | DeleteObjects b keys \<Rightarrow>
          if length keys > 1000 then (Inl ''MalformedXML'', w)
          else (Inr DeleteObjectsOutput, w(b := filter (\<lambda>k. k \<notin> set keys) (w b))))"

section \<open>Example data\<close>

definition exampleEnv :: environment where
  "exampleEnv =
     [''MONGODB_DATABASE'' \<mapsto> ''app'', ''AWS_ACCESS_KEY_ID'' \<mapsto> ''id'',
      ''AWS_SECRET_ACCESS_KEY'' \<mapsto> ''secret'', ''S3_BUCKET'' \<mapsto> ''env-bucket'']"

definition exampleConfig :: config where
  "exampleConfig =
     \<lparr> mongodb_database = ''app'', aws_accessKeyId = ''id'', aws_secretAccessKey = ''secret'',
       aws_region = ''us-east-1'', aws_endpoint = None, s3_bucket = ''env-bucket'',
       s3_prefix = ''backups/mongodb'', mongodumpPath = ''mongodump'' \<rparr>"

definition utcZone :: timezone where
  "utcZone = \<lparr> localOffset = (\<lambda>t. 0), utcOffset = (\<lambda>t. 0) \<rparr>"

definition exampleNow :: int where
  \<comment> \<open>2026-11-02T12:00:00Z\<close>
  "exampleNow = 1793620800000"

definition exampleKeys :: "string list" where
  "exampleKeys =
     map (\<lambda>n. ''backups/mongodb/db-2024-01-15/part-'' @ replicate n CHR ''x'') [0..<1500]"

definition exampleStore :: store where
  "exampleStore b =
     (if b = ''env-bucket''
      then [''backups/mongodb/mydb-2024-01-15-03-30-00/dump.gz'',
            ''backups/mongodb/mydb-2024-01-15/dump.gz'',
            ''backups/mongodb/mydb-2026-11-01/dump.gz'']
      else [])"

definition exampleOptions :: PruneOptions where
  "exampleOptions = \<lparr> bucket = None, prefix = None, days = None, dryRun = None \<rparr>"

section \<open>Traces of the service calls\<close>

declare deleteLoop.simps [simp del]

lemma requests_append [simp]: "requests (t @ u) = requests t @ requests u"
  by (induction t rule: requests.induct) simp_all

lemma printed_append [simp]: "printed (t @ u) = printed t @ printed u"
  by (induction t rule: printed.induct) simp_all

lemma requests_Printed [simp]: "requests (map Printed ls) = []"
  by (induction ls) simp_all

lemma printed_Printed [simp]: "printed (map Printed ls) = ls"
  by (induction ls) simp_all

lemma requests_Printed_comp [simp]: "requests (map (Printed \<circ> f) xs) = []"
  by (induction xs) simp_all

lemma printed_Printed_comp [simp]: "printed (map (Printed \<circ> f) xs) = map f xs"
  by (induction xs) simp_all

lemma send_trace: "send client req w = (r, w', t) \<Longrightarrow> t = [Sent req]"
  by (auto simp: send_def split: prod.splits sum.splits)

lemma send_error: "send client req w = (Inl e, w', t) \<Longrightarrow> \<exists>msg. e = ServiceError msg"
  by (auto simp: send_def split: prod.splits sum.splits)

lemma slice_length: "length (slice xs a b) \<le> b - a"
  by (simp add: slice_def)

lemma keysOf_map_Some: "list_all (\<lambda>k. k \<noteq> []) keys \<Longrightarrow> keysOf (map Some keys) = keys"
  by (induction keys) (auto simp: keysOf_def)

lemma deleteLoop_trace:
  "deleteLoop client b objs i tot w = (r, w', t) \<Longrightarrow>
     \<exists>batches. t = map (\<lambda>bt. Sent (DeleteObjects b bt)) batches \<and>
        list_all (\<lambda>bt. length bt \<le> batchSize) batches \<and>
        (case r of Inr n \<Rightarrow> n = tot + sum_list (map length batches) \<and> concat batches = drop i objs
                 | Inl e \<Rightarrow> \<exists>msg. e = ServiceError msg)"
proof (induction client b objs i tot w arbitrary: r w' t rule: deleteLoop.induct)
  case (1 client b objs i tot w)
  show ?case
  proof (cases "i < length objs")
    case False
    with "1.prems" have "r = Inr tot" "t = []"
      by (simp_all add: deleteLoop.simps)
    with False show ?thesis
      by (intro exI [of _ "[]"]) simp
  next
    case True
    define batch where "batch = slice objs i (i + batchSize)"
    obtain sr w1 t1 where s: "send client (DeleteObjects b batch) w = (sr, w1, t1)"
      by (cases "send client (DeleteObjects b batch) w")
    have t1: "t1 = [Sent (DeleteObjects b batch)]"
      using send_trace [OF s] .
    have len: "length batch \<le> batchSize"
      using slice_length [of objs i "i + batchSize"] by (simp add: batch_def)
    show ?thesis
    proof (cases sr)
      case (Inl e)
      with "1.prems" True s have "r = Inl e" "t = t1"
        by (simp_all add: deleteLoop.simps [of client b objs i] batch_def)
      with t1 len send_error [of client _ w e w1 t1] s Inl show ?thesis
        by (intro exI [of _ "[batch]"]) auto
    next
      case (Inr out)
      obtain r2 w2 t2 where
        rec: "deleteLoop client b objs (i + batchSize) (tot + length batch) w1 = (r2, w2, t2)"
        by (cases "deleteLoop client b objs (i + batchSize) (tot + length batch) w1")
      with "1.prems" True s Inr have res: "r = r2" "t = t1 @ t2"
        by (simp_all add: deleteLoop.simps [of client b objs i] batch_def)
      from "1.IH" [OF True batch_def s [symmetric] Inr refl rec]
      obtain batches where
        b: "t2 = map (\<lambda>bt. Sent (DeleteObjects b bt)) batches"
           "list_all (\<lambda>bt. length bt \<le> batchSize) batches"
           "case r2 of Inr n \<Rightarrow> n = tot + length batch + sum_list (map length batches) \<and>
                                concat batches = drop (i + batchSize) objs
                    | Inl e \<Rightarrow> \<exists>msg. e = ServiceError msg"
        by auto
      have split: "batch @ drop (i + batchSize) objs = drop i objs"
        by (simp add: batch_def slice_def add.commute [of i] flip: drop_drop)
      from b res t1 len split show ?thesis
        by (intro exI [of _ "batch # batches"]) (auto split: sum.splits)
    qed
  qed
qed


lemma requests_map_Sent [simp]: "requests (map (\<lambda>x. Sent (f x)) xs) = map f xs"
  by (induction xs) simp_all

lemma printed_map_Sent [simp]: "printed (map (\<lambda>x. Sent (f x)) xs) = []"
  by (induction xs) simp_all

lemma deleteBackup_trace:
  assumes "deleteBackup client cfg bn w = (r, w', t)"
  shows "\<exists>batches.
           t = Sent (ListObjectsV2 (s3_bucket cfg) (backupPath cfg bn) None)
                 # map (\<lambda>bt. Sent (DeleteObjects (s3_bucket cfg) bt)) batches \<and>
           list_all (\<lambda>bt. length bt \<le> batchSize) batches \<and>
           (case r of
              Inr res \<Rightarrow> deletedFiles res = sum_list (map length batches) \<and> backupName res = bn
            | Inl e \<Rightarrow> (\<exists>msg. e = ServiceError msg) \<or>
                       (e = NoBackupFound (s3_bucket cfg) (backupPath cfg bn) \<and> batches = []))"
proof -
  define req where "req = ListObjectsV2 (s3_bucket cfg) (backupPath cfg bn) None"
  obtain lr w1 t1 where l: "send client req w = (lr, w1, t1)"
    by (cases "send client req w")
  have t1: "t1 = [Sent req]"
    using send_trace [OF l] .
  show ?thesis
  proof (cases lr)
    case (Inl e)
    with assms l have "t = t1" "r = Inl e"
      by (simp_all add: deleteBackup_def req_def)
    with t1 send_error [of client req w e w1 t1] l Inl show ?thesis
      by (intro exI [of _ "[]"]) (auto simp: req_def)
  next
    case (Inr out)
    define objects where "objects = (case Contents out of None \<Rightarrow> [] | Some os \<Rightarrow> os)"
    show ?thesis
    proof (cases "objects = [] \<or> keysOf objects = []")
      case True
      with assms l Inr have "t = t1"
        "case r of Inr res \<Rightarrow> deletedFiles res = 0 \<and> backupName res = bn
                 | Inl e \<Rightarrow> e = NoBackupFound (s3_bucket cfg) (backupPath cfg bn)"
        by (auto simp: deleteBackup_def req_def objects_def Let_def split: if_splits)
      with t1 show ?thesis
        by (intro exI [of _ "[]"]) (auto simp: req_def split: sum.splits)
    next
      case False
      obtain dr w2 t2 where d: "deleteLoop client (s3_bucket cfg) (keysOf objects) 0 0 w1 = (dr, w2, t2)"
        by (cases "deleteLoop client (s3_bucket cfg) (keysOf objects) 0 0 w1")
      from assms l Inr False d have r: "t = t1 @ t2"
        "r = (case dr of Inl e \<Rightarrow> Inl e | Inr n \<Rightarrow> Inr \<lparr>backupName = bn, deletedFiles = n\<rparr>)"
        by (auto simp: deleteBackup_def req_def objects_def Let_def split: sum.splits)
      from deleteLoop_trace [OF d] obtain batches where
        b: "t2 = map (\<lambda>bt. Sent (DeleteObjects (s3_bucket cfg) bt)) batches"
           "list_all (\<lambda>bt. length bt \<le> batchSize) batches"
           "case dr of Inr n \<Rightarrow> n = 0 + sum_list (map length batches) \<and>
                                 concat batches = drop 0 (keysOf objects)
                     | Inl e \<Rightarrow> \<exists>msg. e = ServiceError msg"
        by blast
      from b r t1 show ?thesis
        by (intro exI [of _ batches]) (auto simp: req_def split: sum.splits)
    qed
  qed
qed

lemma deleteBackup_notFound:
  assumes "send client (ListObjectsV2 (s3_bucket cfg) (backupPath cfg bn) None) w = (Inr out, w1, t1)"
    and "Contents out = None \<or> Contents out = Some []"
  shows "deleteBackup client cfg bn w =
           (Inl (NoBackupFound (s3_bucket cfg) (backupPath cfg bn)), w1,
            [Sent (ListObjectsV2 (s3_bucket cfg) (backupPath cfg bn) None)])"
  using assms send_trace [OF assms(1)] by (auto simp: deleteBackup_def Let_def)

lemma deleteBackup_found:
  assumes "send client (ListObjectsV2 (s3_bucket cfg) (backupPath cfg bn) None) w = (lr, w1, t1)"
    and "\<forall>out. lr = Inr out \<longrightarrow> Contents out \<noteq> None \<and> Contents out \<noteq> Some []"
  shows "fst (deleteBackup client cfg bn w) \<noteq> Inl (NoBackupFound b p)"
proof (cases lr)
  case (Inl e)
  with assms(1) send_error [of client _ w e w1 t1] show ?thesis
    by (auto simp: deleteBackup_def)
next
  case (Inr out)
  with assms(2) obtain os where os: "Contents out = Some os" "os \<noteq> []"
    by auto
  show ?thesis
  proof (cases "keysOf os = []")
    case True
    with assms(1) Inr os show ?thesis
      by (simp add: deleteBackup_def)
  next
    case False
    obtain dr w2 t2 where d: "deleteLoop client (s3_bucket cfg) (keysOf os) 0 0 w1 = (dr, w2, t2)"
      by (cases "deleteLoop client (s3_bucket cfg) (keysOf os) 0 0 w1")
    from deleteLoop_trace [OF d] have "case dr of Inr n \<Rightarrow> True | Inl e \<Rightarrow> \<exists>msg. e = ServiceError msg"
      by (auto split: sum.splits)
    with assms(1) Inr os False d show ?thesis
      by (auto simp: deleteBackup_def split: sum.splits)
  qed
qed

section \<open>The object store\<close>

lemma remdups_map_Inl: "remdups (map Inl xs) = map Inl (remdups xs)"
  by (induction xs) auto

lemma concat_keys_Inl:
  "concat (map (\<lambda>e. case e of Inl k \<Rightarrow> [Some k] | Inr p \<Rightarrow> []) (map Inl xs)) = map Some xs"
  by (induction xs) simp_all

lemma concat_cps_Inl:
  "concat (map (\<lambda>e. case e of Inl k \<Rightarrow> [] | Inr p \<Rightarrow> [Some p]) (map Inl xs)) = []"
  by (induction xs) simp_all

lemma storeService_list:
  "storeService (ListObjectsV2 b p None) w =
     (Inr (ListObjectsV2Output
             (if filter (\<lambda>k. startsWith k p) (w b) = [] then None
              else Some (map Some (take 1000 (remdups (filter (\<lambda>k. startsWith k p) (w b))))))
             None), w)"
proof -
  define m where "m = filter (\<lambda>k. startsWith k p) (w b)"
  have e: "map (listEntry p None) ks = map Inl ks" for ks
    by (induction ks) (simp_all add: listEntry_def)
  have entries: "take 1000 (remdups (map (listEntry p None) m)) = map Inl (take 1000 (remdups m))"
    by (simp only: e remdups_map_Inl take_map)
  have empty: "take 1000 (remdups m) = [] \<longleftrightarrow> m = []"
    by simp
  show ?thesis
    unfolding storeService_def s3_request.case m_def [symmetric] Let_def entries
      concat_keys_Inl concat_cps_Inl
    using empty by (simp add: take_map)
qed

lemma storeService_delete:
  "length keys \<le> 1000 \<Longrightarrow>
   storeService (DeleteObjects b keys) w =
     (Inr DeleteObjectsOutput, w(b := filter (\<lambda>k. k \<notin> set keys) (w b)))"
  by (simp add: storeService_def)

lemma backupPath_nonempty: "backupPath cfg bn \<noteq> []"
  by (simp add: backupPath_def)

lemma startsWith_nonempty: "startsWith k p \<Longrightarrow> p \<noteq> [] \<Longrightarrow> k \<noteq> []"
  by (auto simp: startsWith_def)

lemma store_deleteBackup_none:
  assumes "filter (\<lambda>k. startsWith k (backupPath cfg bn)) (w (s3_bucket cfg)) = []"
  shows "deleteBackup storeService cfg bn w =
           (Inl (NoBackupFound (s3_bucket cfg) (backupPath cfg bn)), w,
            [Sent (ListObjectsV2 (s3_bucket cfg) (backupPath cfg bn) None)])"
  using assms by (simp add: deleteBackup_def send_def storeService_list Let_def)

lemma store_deleteBackup_all:
  assumes m: "length (filter (\<lambda>k. startsWith k (backupPath cfg bn)) (w (s3_bucket cfg))) \<le> 1000"
    and ne: "filter (\<lambda>k. startsWith k (backupPath cfg bn)) (w (s3_bucket cfg)) \<noteq> []"
  shows "deleteBackup storeService cfg bn w =
           (Inr \<lparr>backupName = bn,
                 deletedFiles = length (remdups (filter (\<lambda>k. startsWith k (backupPath cfg bn))
                                                  (w (s3_bucket cfg))))\<rparr>,
            w(s3_bucket cfg := filter (\<lambda>k. \<not> startsWith k (backupPath cfg bn)) (w (s3_bucket cfg))),
            [Sent (ListObjectsV2 (s3_bucket cfg) (backupPath cfg bn) None),
             Sent (DeleteObjects (s3_bucket cfg)
                     (remdups (filter (\<lambda>k. startsWith k (backupPath cfg bn)) (w (s3_bucket cfg)))))])"
proof -
  define b where "b = s3_bucket cfg"
  define p where "p = backupPath cfg bn"
  define ks where "ks = remdups (filter (\<lambda>k. startsWith k p) (w b))"
  have len: "length ks \<le> 1000"
    using le_trans [OF length_remdups_leq m] by (simp add: ks_def b_def p_def)
  have ks_ne: "ks \<noteq> []"
    using ne by (simp add: ks_def b_def p_def)
  have "list_all (\<lambda>k. k \<noteq> []) ks"
    using startsWith_nonempty [OF _ backupPath_nonempty [of cfg bn]]
    by (auto simp: ks_def p_def list_all_iff)
  then have keys: "keysOf (map Some ks) = ks"
    by (rule keysOf_map_Some)
  have rest: "filter (\<lambda>k. k \<notin> set ks) (w b) = filter (\<lambda>k. \<not> startsWith k p) (w b)"
    by (rule filter_cong) (auto simp: ks_def)
  have l2: "deleteLoop storeService b ks 1000 (length ks) w' = (Inr (length ks), w', [])" for w'
    using len by (subst deleteLoop.simps) simp
  have loop: "deleteLoop storeService b ks 0 0 w =
                (Inr (length ks), w(b := filter (\<lambda>k. \<not> startsWith k p) (w b)),
                 [Sent (DeleteObjects b ks)])"
    using len ks_ne
    by (subst deleteLoop.simps)
       (simp add: slice_def batchSize_def send_def storeService_delete l2 rest)
  have "deleteBackup storeService cfg bn w =
          (Inr \<lparr>backupName = bn, deletedFiles = length ks\<rparr>,
           w(b := filter (\<lambda>k. \<not> startsWith k p) (w b)),
           [Sent (ListObjectsV2 b p None), Sent (DeleteObjects b ks)])"
    using ne len ks_ne keys loop
    by (simp add: deleteBackup_def send_def storeService_list Let_def ks_def [symmetric]
                  b_def [symmetric] p_def [symmetric])
  then show ?thesis
    by (simp add: ks_def b_def p_def)
qed

lemma example_paths:
  "s3_bucket exampleConfig = ''env-bucket''"
  "backupPath exampleConfig bn = ''backups/mongodb/'' @ bn"
  by (simp_all add: exampleConfig_def backupPath_def)

lemma example_matches:
  "filter (\<lambda>k. startsWith k ''backups/mongodb/mydb-2026-11-01'') (exampleStore ''env-bucket'')
     = [''backups/mongodb/mydb-2026-11-01/dump.gz'']"
  "filter (\<lambda>k. \<not> startsWith k ''backups/mongodb/mydb-2026-11-01'') (exampleStore ''env-bucket'')
     = [''backups/mongodb/mydb-2024-01-15-03-30-00/dump.gz'',
        ''backups/mongodb/mydb-2024-01-15/dump.gz'']"
  "filter (\<lambda>k. startsWith k ''backups/mongodb/mydb-2024-01-15'') (exampleStore ''env-bucket'')
     = [''backups/mongodb/mydb-2024-01-15-03-30-00/dump.gz'',
        ''backups/mongodb/mydb-2024-01-15/dump.gz'']"
  "filter (\<lambda>k. \<not> startsWith k ''backups/mongodb/mydb-2024-01-15'') (exampleStore ''env-bucket'')
     = [''backups/mongodb/mydb-2026-11-01/dump.gz'']"
  "filter (\<lambda>k. startsWith k ''backups/mongodb/mydb-2023-12-31'') (exampleStore ''env-bucket'') = []"
  by code_simp+

section \<open>Matching the patterns\<close>

lemma matchHere_iff: "matchHere ps s \<longleftrightarrow> list_all2 inClass ps (take (length ps) s)"
  by (induction ps s rule: matchHere.induct) simp_all

lemma regexMatch_leftmost:
  "i \<le> length s \<Longrightarrow> matchHere ps (drop i s) \<Longrightarrow> \<forall>j<i. \<not> matchHere ps (drop j s)
     \<Longrightarrow> regexMatch ps s = Some (take (length ps) (drop i s))"
proof (induction s arbitrary: i)
  case Nil
  then show ?case by simp
next
  case (Cons c cs)
  show ?case
  proof (cases i)
    case 0
    with Cons.prems show ?thesis by simp
  next
    case (Suc k)
    with Cons.prems have "\<not> matchHere ps (c # cs)"
      by (metis drop0 zero_less_Suc)
    moreover have "\<forall>j<k. \<not> matchHere ps (drop j cs)"
      using Cons.prems(3) Suc by (metis Suc_less_eq drop_Suc_Cons)
    ultimately show ?thesis
      using Cons.IH [of k] Cons.prems Suc by simp
  qed
qed

lemma regexMatch_none:
  "\<forall>i\<le>length s. \<not> matchHere ps (drop i s) \<Longrightarrow> regexMatch ps s = None"
proof (induction s)
  case Nil
  then show ?case by simp
next
  case (Cons c cs)
  from Cons.prems have "\<not> matchHere ps (c # cs)"
    by (metis drop0 le0)
  moreover have "\<forall>i\<le>length cs. \<not> matchHere ps (drop i cs)"
    using Cons.prems by (metis Suc_le_mono drop_Suc_Cons length_Cons)
  ultimately show ?case
    using Cons.IH by simp
qed

lemma regexMatch_occurrence:
  assumes "list_all2 inClass ps m"
    and "\<forall>i<length pre. \<not> list_all2 inClass ps (take (length ps) (drop i (pre @ m @ post)))"
  shows "regexMatch ps (pre @ m @ post) = Some m"
proof -
  from assms(1) have len: "length m = length ps"
    by (simp add: list_all2_lengthD)
  have "regexMatch ps (pre @ m @ post) = Some (take (length ps) (drop (length pre) (pre @ m @ post)))"
    using assms len by (intro regexMatch_leftmost) (simp_all add: matchHere_iff)
  with len show ?thesis
    by simp
qed

lemma regexMatch_absent:
  assumes "\<forall>i. \<not> list_all2 inClass ps (take (length ps) (drop i s))"
  shows "regexMatch ps s = None"
  using assms by (intro regexMatch_none) (simp add: matchHere_iff)

lemma timestamp_needs_date:
  "list_all2 inClass timestampRegex (take (length timestampRegex) s)
     \<Longrightarrow> list_all2 inClass dateRegex (take (length dateRegex) s)"
proof -
  assume a: "list_all2 inClass timestampRegex (take (length timestampRegex) s)"
  then have "matchHere timestampRegex s"
    by (simp add: matchHere_iff)
  have app: "matchHere (ps @ qs) s \<Longrightarrow> matchHere ps s" for ps qs s
    by (induction ps s rule: matchHere.induct) simp_all
  from \<open>matchHere timestampRegex s\<close> have "matchHere dateRegex s"
    unfolding timestampRegex_def by (rule app)
  then show ?thesis
    by (simp add: matchHere_iff)
qed

lemma regexMatch_None_iff:
  "regexMatch ps s = None \<longleftrightarrow> (\<forall>i. \<not> list_all2 inClass ps (take (length ps) (drop i s)))"
proof
  assume none: "regexMatch ps s = None"
  show "\<forall>i. \<not> list_all2 inClass ps (take (length ps) (drop i s))"
  proof (rule ccontr)
    assume "\<not> (\<forall>i. \<not> list_all2 inClass ps (take (length ps) (drop i s)))"
    then obtain i where i: "matchHere ps (drop i s)"
      by (auto simp: matchHere_iff)
    define k where "k = (LEAST j. matchHere ps (drop j s))"
    have k: "matchHere ps (drop k s)"
      unfolding k_def using i by (rule LeastI)
    have least: "\<forall>j<k. \<not> matchHere ps (drop j s)"
      unfolding k_def using not_less_Least by blast
    have "k \<le> length s"
    proof (rule ccontr)
      assume "\<not> k \<le> length s"
      then have "length s < k" "drop k s = drop (length s) s"
        by simp_all
      with k least show False
        by metis
    qed
    from regexMatch_leftmost [OF this k least] none show False
      by simp
  qed
next
  assume "\<forall>i. \<not> list_all2 inClass ps (take (length ps) (drop i s))"
  then show "regexMatch ps s = None"
    by (rule regexMatch_absent)
qed

section \<open>What the lister returns\<close>

lemma collectBackups_parsed:
  "collectBackups pre ps acc out = (bs, ws) \<Longrightarrow>
     \<forall>b\<in>set acc. extractDateFromBackupName (name b) = Some (date b) \<Longrightarrow>
     \<forall>b\<in>set bs. extractDateFromBackupName (name b) = Some (date b)"
proof (induction ps arbitrary: acc out)
  case Nil
  then show ?case by simp
next
  case (Cons p ps)
  show ?case
  proof (cases "folderName pre p = []")
    case True
    with Cons.prems Cons.IH [of acc out] show ?thesis
      by simp
  next
    case False
    show ?thesis
    proof (cases "extractDateFromBackupName (folderName pre p)")
      case None
      with False Cons.prems Cons.IH [of acc "out @ [UnparsableWarning (folderName pre p)]"]
      show ?thesis by simp
    next
      case (Some d)
      with False Cons.prems
        Cons.IH [of "acc @ [\<lparr>name = folderName pre p, date = d\<rparr>]" out]
      show ?thesis by simp
    qed
  qed
qed

lemma collectBackups_includes:
  "collectBackups pre ps acc out = (bs, ws) \<Longrightarrow>
     set acc \<subseteq> set bs \<and>
     (\<forall>p\<in>set ps. \<forall>d. folderName pre p \<noteq> [] \<and>
          extractDateFromBackupName (folderName pre p) = Some d
          \<longrightarrow> \<lparr>name = folderName pre p, date = d\<rparr> \<in> set bs)"
proof (induction ps arbitrary: acc out)
  case Nil
  then show ?case by simp
next
  case (Cons p ps)
  show ?case
  proof (cases "folderName pre p = []")
    case True
    with Cons.prems Cons.IH [of acc out] show ?thesis
      by simp
  next
    case False
    show ?thesis
    proof (cases "extractDateFromBackupName (folderName pre p)")
      case None
      with False Cons.prems Cons.IH [of acc "out @ [UnparsableWarning (folderName pre p)]"]
      show ?thesis by simp
    next
      case (Some d)
      with False Cons.prems
        Cons.IH [of "acc @ [\<lparr>name = folderName pre p, date = d\<rparr>]" out]
      show ?thesis by auto
    qed
  qed
qed

lemma set_insertBackup [simp]: "set (insertBackup a bs) = insert a (set bs)"
  by (induction bs) auto

lemma set_sortBackups [simp]: "set (sortBackups bs) = set bs"
  by (induction bs) (simp_all add: sortBackups_def)

lemma listBackupsWithDates_result:
  assumes "listBackupsWithDates client cfg w = (Inr bs, w', t)"
  shows "\<exists>response ta backups warnings.
           send client (ListObjectsV2 (s3_bucket cfg) (listingPrefix cfg) (Some ''/'')) w
             = (Inr response, w', ta) \<and>
           collectBackups (listingPrefix cfg) (prefixesOf response) [] [] = (backups, warnings) \<and>
           bs = sortBackups backups \<and>
           t = Printed (ListingLine (s3_bucket cfg) (listingPrefix cfg)) # ta @ map Printed warnings"
  using assms
  by (auto simp: listBackupsWithDates_def Let_def split: prod.splits sum.splits)

lemma listBackupsWithDates_parsed:
  assumes "listBackupsWithDates client cfg w = (Inr bs, w', t)"
  shows "\<forall>b\<in>set bs. extractDateFromBackupName (name b) = Some (date b)"
proof -
  from listBackupsWithDates_result [OF assms] obtain response backups warnings where
    "collectBackups (listingPrefix cfg) (prefixesOf response) [] [] = (backups, warnings)"
    "bs = sortBackups backups"
    by blast
  with collectBackups_parsed [of "listingPrefix cfg" "prefixesOf response" "[]" "[]" backups warnings]
  show ?thesis by simp
qed

lemma listBackupsWithDates_requests:
  assumes "listBackupsWithDates client cfg w = (r, w', t)"
  shows "requests t = [ListObjectsV2 (s3_bucket cfg) (listingPrefix cfg) (Some ''/'')]"
proof -
  obtain lr w1 t1 where
    s: "send client (ListObjectsV2 (s3_bucket cfg) (listingPrefix cfg) (Some ''/'')) w = (lr, w1, t1)"
    by (cases "send client (ListObjectsV2 (s3_bucket cfg) (listingPrefix cfg) (Some ''/'')) w")
  from send_trace [OF s] have "t1 = [Sent (ListObjectsV2 (s3_bucket cfg) (listingPrefix cfg) (Some ''/''))]" .
  with assms s show ?thesis
    by (auto simp: listBackupsWithDates_def Let_def split: sum.splits prod.splits)
qed

section \<open>Names that match and dates that compare\<close>

lemma extract_of_match:
  assumes "list_all2 inClass timestampRegex (take 19 (drop i nm)) \<or>
           list_all2 inClass dateRegex (take 10 (drop i nm))"
  shows "\<exists>d. extractDateFromBackupName nm = Some d"
proof -
  have len: "length timestampRegex = 19" "length dateRegex = 10"
    by (simp_all add: timestampRegex_def dateRegex_def)
  from assms have "list_all2 inClass dateRegex (take (length dateRegex) (drop i nm))"
    using timestamp_needs_date [of "drop i nm"] by (auto simp: len)
  then have "regexMatch dateRegex nm \<noteq> None"
    unfolding regexMatch_None_iff by blast
  then show ?thesis
    by (auto simp: extractDateFromBackupName_def split: option.splits)
qed

lemma date_lt_Invalid [simp]: "\<not> date_lt InvalidDate c" "\<not> date_lt d InvalidDate"
  by (cases d; simp)+

lemma date_ge_Invalid [simp]: "\<not> date_ge InvalidDate c" "\<not> date_ge d InvalidDate"
  by (cases d; simp)+

section \<open>The deletion loop\<close>

lemma deleteBackup_prints_nothing:
  "deleteBackup client cfg bn w = (r, w', t) \<Longrightarrow> printed t = []"
  by (drule deleteBackup_trace) auto

lemma deleteRuns_length:
  "deleteRuns client cfg bs w = (runs, wr) \<Longrightarrow> length runs = length bs"
  by (induction bs arbitrary: w runs wr) (auto split: prod.splits)

lemma deleteAll_runs:
  "deleteRuns client cfg bs w = (runs, wr) \<Longrightarrow>
     \<exists>t. deleteAll client cfg bs dc ec w =
           ((dc + length (filter (\<lambda>run. \<not> isl (fst run)) runs),
             ec + length (filter (\<lambda>run. isl (fst run)) runs)), wr, t) \<and>
         requests t = concat (map (\<lambda>run. requests (snd run)) runs) \<and>
         printed t = map2 reportLine bs runs"
proof (induction bs arbitrary: w runs wr dc ec)
  case Nil
  then show ?case by simp
next
  case (Cons b bs)
  obtain r w1 t1 where d: "deleteBackup client cfg (name b) w = (r, w1, t1)"
    by (cases "deleteBackup client cfg (name b) w")
  obtain rs w2 where rest: "deleteRuns client cfg bs w1 = (rs, w2)"
    by (cases "deleteRuns client cfg bs w1")
  from Cons.prems d rest have runs: "runs = (r, t1) # rs" "wr = w2"
    by simp_all
  note p = deleteBackup_prints_nothing [OF d]
  show ?case
  proof (cases r)
    case (Inl e)
    from Cons.IH [OF rest, of dc "ec + 1"] obtain t' where
      "deleteAll client cfg bs dc (ec + 1) w1 =
         ((dc + length (filter (\<lambda>run. \<not> isl (fst run)) rs),
           ec + 1 + length (filter (\<lambda>run. isl (fst run)) rs)), w2, t')"
      "requests t' = concat (map (\<lambda>run. requests (snd run)) rs)"
      "printed t' = map2 reportLine bs rs"
      by blast
    with d Inl runs p show ?thesis
      by (simp add: reportLine_def)
  next
    case (Inr result)
    from Cons.IH [OF rest, of "dc + 1" ec] obtain t' where
      "deleteAll client cfg bs (dc + 1) ec w1 =
         ((dc + 1 + length (filter (\<lambda>run. \<not> isl (fst run)) rs),
           ec + length (filter (\<lambda>run. isl (fst run)) rs)), w2, t')"
      "requests t' = concat (map (\<lambda>run. requests (snd run)) rs)"
      "printed t' = map2 reportLine bs rs"
      by blast
    with d Inr runs p show ?thesis
      by (simp add: reportLine_def)
  qed
qed

lemma count_split:
  "length (filter (\<lambda>x. \<not> P x) xs) + length (filter P xs) = length xs"
  by (induction xs) simp_all

lemma no_failure_iff:
  "length (filter (\<lambda>run. isl (fst run)) runs) = 0 \<longleftrightarrow> list_all (\<lambda>run. \<not> isl (fst run)) runs"
  by (induction runs) simp_all

section \<open>What one deletion reaches\<close>

text \<open>
  C3. The listing of \<open>deleteBackup\<close> asks for the prefix \<open>{prefix}/{B}\<close> without a
  closing \<open>/\<close>. In a store that holds the backups \<open>mydb-2024-01-15\<close> and
  \<open>mydb-2024-01-15-03-30-00\<close>, deleting \<open>mydb-2024-01-15\<close> submits the object of
  \<open>mydb-2024-01-15-03-30-00\<close> as well: a key that does not lie under
  \<open>{prefix}/mydb-2024-01-15/\<close> and that the lister assigns to the other backup.
\<close>

theorem deleteBackup_reaches_sibling:
  "deleteBackup storeService exampleConfig ''mydb-2024-01-15'' exampleStore
     = (Inr \<lparr>backupName = ''mydb-2024-01-15'', deletedFiles = 2\<rparr>,
        exampleStore(''env-bucket'' := [''backups/mongodb/mydb-2026-11-01/dump.gz'']),
        [Sent (ListObjectsV2 ''env-bucket'' ''backups/mongodb/mydb-2024-01-15'' None),
         Sent (DeleteObjects ''env-bucket''
                 [''backups/mongodb/mydb-2024-01-15-03-30-00/dump.gz'',
                  ''backups/mongodb/mydb-2024-01-15/dump.gz''])]) \<and>
   \<not> startsWith ''backups/mongodb/mydb-2024-01-15-03-30-00/dump.gz''
                 (backupPath exampleConfig ''mydb-2024-01-15'' @ ''/'') \<and>
   folderName (listingPrefix exampleConfig) ''backups/mongodb/mydb-2024-01-15-03-30-00/''
     = ''mydb-2024-01-15-03-30-00''"
proof -
  have "deleteBackup storeService exampleConfig ''mydb-2024-01-15'' exampleStore
     = (Inr \<lparr>backupName = ''mydb-2024-01-15'', deletedFiles = 2\<rparr>,
        exampleStore(''env-bucket'' := [''backups/mongodb/mydb-2026-11-01/dump.gz'']),
        [Sent (ListObjectsV2 ''env-bucket'' ''backups/mongodb/mydb-2024-01-15'' None),
         Sent (DeleteObjects ''env-bucket''
                 [''backups/mongodb/mydb-2024-01-15-03-30-00/dump.gz'',
                  ''backups/mongodb/mydb-2024-01-15/dump.gz''])])"
    using store_deleteBackup_all [of exampleConfig "''mydb-2024-01-15''" exampleStore]
    by (simp add: example_paths example_matches)
  moreover have "\<not> startsWith ''backups/mongodb/mydb-2024-01-15-03-30-00/dump.gz''
                 (backupPath exampleConfig ''mydb-2024-01-15'' @ ''/'')"
    by code_simp
  moreover have "folderName (listingPrefix exampleConfig) ''backups/mongodb/mydb-2024-01-15-03-30-00/''
     = ''mydb-2024-01-15-03-30-00''"
    by code_simp
  ultimately show ?thesis
    by blast
qed

section \<open>Batched deletion\<close>

text \<open>
  C4. Every run of \<open>deleteBackup\<close> sends one listing request and then only deletion
  requests of at most 1000 keys each, and a result it returns counts the keys of
  all deletion requests it sent. When the listing yields 1500 objects (each with
  its key) and the service accepts both deletions, exactly two deletion requests
  are sent, the first 1000 keys and the remaining 500, and the result reports
  \<open>deletedFiles = 1500\<close>.
\<close>

theorem deleteBackup_batches:
  "(deleteBackup client cfg bn w = (r, w', t) \<longrightarrow>
      (\<exists>batches.
         requests t = ListObjectsV2 (s3_bucket cfg) (backupPath cfg bn) None
                        # map (DeleteObjects (s3_bucket cfg)) batches \<and>
         list_all (\<lambda>bt. length bt \<le> 1000) batches \<and>
         (\<forall>res. r = Inr res \<longrightarrow> deletedFiles res = sum_list (map length batches)))) \<and>
   (send client (ListObjectsV2 (s3_bucket cfg) (backupPath cfg bn) None) w
        = (Inr listing, wa, ta) \<and>
    Contents listing = Some (map Some keys) \<and> list_all (\<lambda>k. k \<noteq> []) keys \<and>
    length keys = 1500 \<and>
    send client (DeleteObjects (s3_bucket cfg) (take 1000 keys)) wa = (Inr outa, wb, tb) \<and>
    send client (DeleteObjects (s3_bucket cfg) (drop 1000 keys)) wb = (Inr outb, wc, tc)
    \<longrightarrow> deleteBackup client cfg bn w =
          (Inr \<lparr>backupName = bn, deletedFiles = 1500\<rparr>, wc,
           [Sent (ListObjectsV2 (s3_bucket cfg) (backupPath cfg bn) None),
            Sent (DeleteObjects (s3_bucket cfg) (take 1000 keys)),
            Sent (DeleteObjects (s3_bucket cfg) (drop 1000 keys))]) \<and>
        length (take 1000 keys) = 1000 \<and> length (drop 1000 keys) = 500)"
proof (intro conjI impI)
  assume "deleteBackup client cfg bn w = (r, w', t)"
  from deleteBackup_trace [OF this]
  show "\<exists>batches.
         requests t = ListObjectsV2 (s3_bucket cfg) (backupPath cfg bn) None
                        # map (DeleteObjects (s3_bucket cfg)) batches \<and>
         list_all (\<lambda>bt. length bt \<le> 1000) batches \<and>
         (\<forall>res. r = Inr res \<longrightarrow> deletedFiles res = sum_list (map length batches))"
    by (auto simp: batchSize_def)
next
  assume a: "send client (ListObjectsV2 (s3_bucket cfg) (backupPath cfg bn) None) w
        = (Inr listing, wa, ta) \<and>
    Contents listing = Some (map Some keys) \<and> list_all (\<lambda>k. k \<noteq> []) keys \<and>
    length keys = 1500 \<and>
    send client (DeleteObjects (s3_bucket cfg) (take 1000 keys)) wa = (Inr outa, wb, tb) \<and>
    send client (DeleteObjects (s3_bucket cfg) (drop 1000 keys)) wb = (Inr outb, wc, tc)"
  then have k: "keysOf (map Some keys) = keys" and len: "length keys = 1500"
    by (simp_all add: keysOf_map_Some)
  from a have l: "send client (ListObjectsV2 (s3_bucket cfg) (backupPath cfg bn) None) w
        = (Inr listing, wa, ta)"
    and d1: "send client (DeleteObjects (s3_bucket cfg) (take 1000 keys)) wa = (Inr outa, wb, tb)"
    and d2: "send client (DeleteObjects (s3_bucket cfg) (drop 1000 keys)) wb = (Inr outb, wc, tc)"
    by simp_all
  note tr = send_trace [OF l] send_trace [OF d1] send_trace [OF d2]
  have l3: "deleteLoop client (s3_bucket cfg) keys 2000 1500 wc = (Inr 1500, wc, [])"
    by (subst deleteLoop.simps) (simp add: len)
  have l2: "deleteLoop client (s3_bucket cfg) keys 1000 1000 wb = (Inr 1500, wc, tc)"
    by (subst deleteLoop.simps) (simp add: len slice_def batchSize_def d2 l3)
  have loop: "deleteLoop client (s3_bucket cfg) keys 0 0 wa = (Inr 1500, wc, tb @ tc)"
    by (subst deleteLoop.simps) (simp add: len slice_def batchSize_def d1 l2)
  from len have nonempty: "keys \<noteq> []"
    by auto
  show "deleteBackup client cfg bn w =
          (Inr \<lparr>backupName = bn, deletedFiles = 1500\<rparr>, wc,
           [Sent (ListObjectsV2 (s3_bucket cfg) (backupPath cfg bn) None),
            Sent (DeleteObjects (s3_bucket cfg) (take 1000 keys)),
            Sent (DeleteObjects (s3_bucket cfg) (drop 1000 keys))])"
    using a k loop nonempty tr by (simp add: deleteBackup_def)
  show "length (take 1000 keys) = 1000" "length (drop 1000 keys) = 500"
    using len by simp_all
qed

theorem deleteBackup_batches_witness:
  "deleteBackup scripted exampleConfig ''db-2024-01-15''
     [Inr (ListObjectsV2Output (Some (map Some exampleKeys)) None),
      Inr DeleteObjectsOutput, Inr DeleteObjectsOutput]
   = (Inr \<lparr>backupName = ''db-2024-01-15'', deletedFiles = 1500\<rparr>, [],
      [Sent (ListObjectsV2 ''env-bucket'' ''backups/mongodb/db-2024-01-15'' None),
       Sent (DeleteObjects ''env-bucket'' (take 1000 exampleKeys)),
       Sent (DeleteObjects ''env-bucket'' (drop 1000 exampleKeys))]) \<and>
   length (take 1000 exampleKeys) = 1000 \<and> length (drop 1000 exampleKeys) = 500 \<and>
   (\<exists>batches.
      [ListObjectsV2 ''env-bucket'' ''backups/mongodb/db-2024-01-15'' None,
       DeleteObjects ''env-bucket'' (take 1000 exampleKeys),
       DeleteObjects ''env-bucket'' (drop 1000 exampleKeys)]
      = ListObjectsV2 ''env-bucket'' ''backups/mongodb/db-2024-01-15'' None
          # map (DeleteObjects ''env-bucket'') batches \<and>
      list_all (\<lambda>bt. length bt \<le> 1000) batches \<and>
      1500 = sum_list (map length batches))"
proof -
  let ?w = "[Inr (ListObjectsV2Output (Some (map Some exampleKeys)) None),
             Inr DeleteObjectsOutput, Inr DeleteObjectsOutput]"
  have len: "length exampleKeys = 1500"
    by (simp add: exampleKeys_def)
  have ne: "list_all (\<lambda>k. k \<noteq> []) exampleKeys"
    by (simp add: exampleKeys_def list_all_iff)
  have cfg: "s3_bucket exampleConfig = ''env-bucket''"
    "backupPath exampleConfig ''db-2024-01-15'' = ''backups/mongodb/db-2024-01-15''"
    by (simp_all add: exampleConfig_def backupPath_def)
  have run: "deleteBackup scripted exampleConfig ''db-2024-01-15'' ?w
     = (Inr \<lparr>backupName = ''db-2024-01-15'', deletedFiles = 1500\<rparr>, [],
        [Sent (ListObjectsV2 ''env-bucket'' ''backups/mongodb/db-2024-01-15'' None),
         Sent (DeleteObjects ''env-bucket'' (take 1000 exampleKeys)),
         Sent (DeleteObjects ''env-bucket'' (drop 1000 exampleKeys))])"
    using deleteBackup_batches
      [where client = scripted and cfg = exampleConfig and bn = "''db-2024-01-15''"
         and w = ?w and keys = exampleKeys
         and listing = "ListObjectsV2Output (Some (map Some exampleKeys)) None"
         and wa = "[Inr DeleteObjectsOutput, Inr DeleteObjectsOutput]"
         and wb = "[Inr DeleteObjectsOutput]" and wc = "[]"
         and outa = DeleteObjectsOutput and outb = DeleteObjectsOutput] len ne
    by (simp add: cfg send_def scripted_def)
  from deleteBackup_batches
      [where client = scripted and cfg = exampleConfig and bn = "''db-2024-01-15''"
         and w = ?w, THEN conjunct1, rule_format, OF run]
  show ?thesis
    using run len by (simp add: cfg)
qed

section \<open>Date extraction\<close>

text \<open>
  C2. The full timestamp pattern is tried first: where the name holds an occurrence
  of it, the fields of the leftmost one are read as a UTC date and time. A name
  without such an occurrence that holds a bare \<open>YYYY-MM-DD\<close> gets the fields of the
  leftmost one at 00:00:00 UTC. A name that holds neither has no date, and the
  lister returns no entry of that name. \<open>mydb-2024-01-15-03-30-00\<close> gives the time
  value of 2024-01-15T03:30:00Z, \<open>mydb-2024-01-15\<close> that of 2024-01-15T00:00:00Z,
  and \<open>mydb-backup\<close> is left out of the listing.
\<close>

theorem extractDate_patterns:
  "(list_all2 inClass timestampRegex ts \<and>
    (\<forall>i<length pre. \<not> list_all2 inClass timestampRegex (take 19 (drop i (pre @ ts @ post))))
    \<longrightarrow> extractDateFromBackupName (pre @ ts @ post) =
          Some (isoDate (digitsToNat 0 (slice ts 0 4)) (digitsToNat 0 (slice ts 5 7))
                        (digitsToNat 0 (slice ts 8 10)) (digitsToNat 0 (slice ts 11 13))
                        (digitsToNat 0 (slice ts 14 16)) (digitsToNat 0 (slice ts 17 19)))) \<and>
   ((\<forall>i. \<not> list_all2 inClass timestampRegex (take 19 (drop i (pre @ ds @ post)))) \<and>
    list_all2 inClass dateRegex ds \<and>
    (\<forall>i<length pre. \<not> list_all2 inClass dateRegex (take 10 (drop i (pre @ ds @ post))))
    \<longrightarrow> extractDateFromBackupName (pre @ ds @ post) =
          Some (isoDate (digitsToNat 0 (slice ds 0 4)) (digitsToNat 0 (slice ds 5 7))
                        (digitsToNat 0 (slice ds 8 10)) 0 0 0)) \<and>
   ((\<forall>i. \<not> list_all2 inClass dateRegex (take 10 (drop i nm)))
    \<longrightarrow> extractDateFromBackupName nm = None) \<and>
   (listBackupsWithDates client cfg w = (Inr bs, w', t) \<and> extractDateFromBackupName nm = None
    \<longrightarrow> nm \<notin> name ` set bs) \<and>
   extractDateFromBackupName ''mydb-2024-01-15-03-30-00'' = Some (TimeValue 1705289400000) \<and>
   civilFromDay (1705289400000 div msPerDay) = (2024, 0, 15) \<and>
   1705289400000 mod msPerDay = MakeTime 3 30 0 0 \<and>
   extractDateFromBackupName ''mydb-2024-01-15'' = Some (TimeValue 1705276800000) \<and>
   civilFromDay (1705276800000 div msPerDay) = (2024, 0, 15) \<and>
   1705276800000 mod msPerDay = MakeTime 0 0 0 0 \<and>
   extractDateFromBackupName ''mydb-backup'' = None \<and>
   fst (listBackupsWithDates scripted exampleConfig
          [Inr (ListObjectsV2Output None
                  (Some [Some ''backups/mongodb/mydb-2024-01-15-03-30-00/'',
                         Some ''backups/mongodb/mydb-2024-01-15/'',
                         Some ''backups/mongodb/mydb-backup/'']))])
     = Inr [\<lparr>name = ''mydb-2024-01-15-03-30-00'', date = TimeValue 1705289400000\<rparr>,
            \<lparr>name = ''mydb-2024-01-15'', date = TimeValue 1705276800000\<rparr>]"
proof -
  have len: "length timestampRegex = 19" "length dateRegex = 10"
    by (simp_all add: timestampRegex_def dateRegex_def)
  have full: "extractDateFromBackupName (pre @ ts @ post) =
          Some (isoDate (digitsToNat 0 (slice ts 0 4)) (digitsToNat 0 (slice ts 5 7))
                        (digitsToNat 0 (slice ts 8 10)) (digitsToNat 0 (slice ts 11 13))
                        (digitsToNat 0 (slice ts 14 16)) (digitsToNat 0 (slice ts 17 19)))"
    if "list_all2 inClass timestampRegex ts"
      "\<forall>i<length pre. \<not> list_all2 inClass timestampRegex (take 19 (drop i (pre @ ts @ post)))"
  proof -
    from that have "regexMatch timestampRegex (pre @ ts @ post) = Some ts"
      by (intro regexMatch_occurrence) (simp_all add: len)
    then show ?thesis
      by (simp add: extractDateFromBackupName_def)
  qed
  have bare: "extractDateFromBackupName (pre @ ds @ post) =
          Some (isoDate (digitsToNat 0 (slice ds 0 4)) (digitsToNat 0 (slice ds 5 7))
                        (digitsToNat 0 (slice ds 8 10)) 0 0 0)"
    if "\<forall>i. \<not> list_all2 inClass timestampRegex (take 19 (drop i (pre @ ds @ post)))"
      "list_all2 inClass dateRegex ds"
      "\<forall>i<length pre. \<not> list_all2 inClass dateRegex (take 10 (drop i (pre @ ds @ post)))"
  proof -
    from that(1) have "regexMatch timestampRegex (pre @ ds @ post) = None"
      by (intro regexMatch_absent) (simp add: len)
    moreover from that(2,3) have "regexMatch dateRegex (pre @ ds @ post) = Some ds"
      by (intro regexMatch_occurrence) (simp_all add: len)
    ultimately show ?thesis
      by (simp add: extractDateFromBackupName_def)
  qed
  have none: "extractDateFromBackupName nm = None"
    if d: "\<forall>i. \<not> list_all2 inClass dateRegex (take 10 (drop i nm))"
  proof -
    from d have "regexMatch dateRegex nm = None"
      by (intro regexMatch_absent) (simp add: len)
    moreover have "\<forall>i. \<not> list_all2 inClass timestampRegex (take (length timestampRegex) (drop i nm))"
      using d timestamp_needs_date [of "drop _ nm"] by (auto simp: len)
    then have "regexMatch timestampRegex nm = None"
      by (rule regexMatch_absent)
    ultimately show ?thesis
      by (simp add: extractDateFromBackupName_def)
  qed
  have excluded: "nm \<notin> name ` set bs"
    if "listBackupsWithDates client cfg w = (Inr bs, w', t)" "extractDateFromBackupName nm = None"
    using listBackupsWithDates_parsed [OF that(1)] that(2) by auto
  have e1: "extractDateFromBackupName ''mydb-2024-01-15-03-30-00'' = Some (TimeValue 1705289400000)"
    by code_simp
  have e2: "extractDateFromBackupName ''mydb-2024-01-15'' = Some (TimeValue 1705276800000)"
    by code_simp
  have e3: "extractDateFromBackupName ''mydb-backup'' = None"
    by code_simp
  have c1: "civilFromDay (1705289400000 div msPerDay) = (2024, 0, 15)"
    "civilFromDay (1705276800000 div msPerDay) = (2024, 0, 15)"
    by code_simp+
  have c2: "1705289400000 mod msPerDay = MakeTime 3 30 0 0"
    "1705276800000 mod msPerDay = MakeTime 0 0 0 0"
    by (simp_all add: msPerDay_def MakeTime_def)
  have listing: "fst (listBackupsWithDates scripted exampleConfig
          [Inr (ListObjectsV2Output None
                  (Some [Some ''backups/mongodb/mydb-2024-01-15-03-30-00/'',
                         Some ''backups/mongodb/mydb-2024-01-15/'',
                         Some ''backups/mongodb/mydb-backup/'']))])
     = Inr [\<lparr>name = ''mydb-2024-01-15-03-30-00'', date = TimeValue 1705289400000\<rparr>,
            \<lparr>name = ''mydb-2024-01-15'', date = TimeValue 1705276800000\<rparr>]"
    by code_simp
  from full bare none excluded e1 e2 e3 c1 c2 listing show ?thesis
    by blast
qed

theorem extractDate_patterns_witness:
  "list_all2 inClass timestampRegex ''2024-01-15-03-30-00'' \<and>
   list_all (\<lambda>i. \<not> list_all2 inClass timestampRegex
                       (take 19 (drop i (''mydb-'' @ ''2024-01-15-03-30-00'' @ [])))) [0..<5] \<and>
   extractDateFromBackupName (''mydb-'' @ ''2024-01-15-03-30-00'' @ [])
     = Some (isoDate 2024 1 15 3 30 0) \<and>
   isoDate 2024 1 15 3 30 0 = TimeValue 1705289400000 \<and>
   regexMatch timestampRegex (''mydb-'' @ ''2024-01-15'' @ []) = None \<and>
   list_all2 inClass dateRegex ''2024-01-15'' \<and>
   list_all (\<lambda>i. \<not> list_all2 inClass dateRegex
                       (take 10 (drop i (''mydb-'' @ ''2024-01-15'' @ [])))) [0..<5] \<and>
   extractDateFromBackupName (''mydb-'' @ ''2024-01-15'' @ []) = Some (isoDate 2024 1 15 0 0 0) \<and>
   isoDate 2024 1 15 0 0 0 = TimeValue 1705276800000 \<and>
   regexMatch dateRegex ''mydb-backup'' = None \<and>
   extractDateFromBackupName ''mydb-backup'' = None \<and>
   listBackupsWithDates scripted exampleConfig
       [Inr (ListObjectsV2Output None
               (Some [Some ''backups/mongodb/mydb-2024-01-15/'',
                      Some ''backups/mongodb/mydb-backup/'']))]
     = (Inr [\<lparr>name = ''mydb-2024-01-15'', date = TimeValue 1705276800000\<rparr>], [],
        [Printed (ListingLine ''env-bucket'' ''backups/mongodb/''),
         Sent (ListObjectsV2 ''env-bucket'' ''backups/mongodb/'' (Some ''/'')),
         Printed (UnparsableWarning ''mydb-backup'')]) \<and>
   ''mydb-backup'' \<notin> name ` set [\<lparr>name = ''mydb-2024-01-15'', date = TimeValue 1705276800000\<rparr>]"
proof -
  have len: "length timestampRegex = 19" "length dateRegex = 10"
    by (simp_all add: timestampRegex_def dateRegex_def)
  have h1: "list_all2 inClass timestampRegex ''2024-01-15-03-30-00''"
    by code_simp
  have h2: "list_all (\<lambda>i. \<not> list_all2 inClass timestampRegex
                       (take 19 (drop i (''mydb-'' @ ''2024-01-15-03-30-00'' @ [])))) [0..<5]"
    by code_simp
  have h3: "regexMatch timestampRegex (''mydb-'' @ ''2024-01-15'' @ []) = None"
    by code_simp
  have h4: "list_all2 inClass dateRegex ''2024-01-15''"
    by code_simp
  have h5: "list_all (\<lambda>i. \<not> list_all2 inClass dateRegex
                       (take 10 (drop i (''mydb-'' @ ''2024-01-15'' @ [])))) [0..<5]"
    by code_simp
  have h6: "regexMatch dateRegex ''mydb-backup'' = None"
    by code_simp
  have h7: "listBackupsWithDates scripted exampleConfig
       [Inr (ListObjectsV2Output None
               (Some [Some ''backups/mongodb/mydb-2024-01-15/'',
                      Some ''backups/mongodb/mydb-backup/'']))]
     = (Inr [\<lparr>name = ''mydb-2024-01-15'', date = TimeValue 1705276800000\<rparr>], [],
        [Printed (ListingLine ''env-bucket'' ''backups/mongodb/''),
         Sent (ListObjectsV2 ''env-bucket'' ''backups/mongodb/'' (Some ''/'')),
         Printed (UnparsableWarning ''mydb-backup'')])"
    by code_simp
  have f1: "isoDate (digitsToNat 0 (slice ''2024-01-15-03-30-00'' 0 4))
                    (digitsToNat 0 (slice ''2024-01-15-03-30-00'' 5 7))
                    (digitsToNat 0 (slice ''2024-01-15-03-30-00'' 8 10))
                    (digitsToNat 0 (slice ''2024-01-15-03-30-00'' 11 13))
                    (digitsToNat 0 (slice ''2024-01-15-03-30-00'' 14 16))
                    (digitsToNat 0 (slice ''2024-01-15-03-30-00'' 17 19))
            = isoDate 2024 1 15 3 30 0"
    by code_simp
  have f2: "isoDate (digitsToNat 0 (slice ''2024-01-15'' 0 4))
                    (digitsToNat 0 (slice ''2024-01-15'' 5 7))
                    (digitsToNat 0 (slice ''2024-01-15'' 8 10)) 0 0 0
            = isoDate 2024 1 15 0 0 0"
    by code_simp
  have v: "isoDate 2024 1 15 3 30 0 = TimeValue 1705289400000"
    "isoDate 2024 1 15 0 0 0 = TimeValue 1705276800000"
    by code_simp+
  have q2: "\<forall>i<length ''mydb-''. \<not> list_all2 inClass timestampRegex
                (take 19 (drop i (''mydb-'' @ ''2024-01-15-03-30-00'' @ [])))"
    using h2 by (simp add: list_all_iff)
  have q3: "\<forall>i. \<not> list_all2 inClass timestampRegex (take 19 (drop i (''mydb-'' @ ''2024-01-15'' @ [])))"
    using h3 unfolding regexMatch_None_iff len .
  have q5: "\<forall>i<length ''mydb-''. \<not> list_all2 inClass dateRegex
                (take 10 (drop i (''mydb-'' @ ''2024-01-15'' @ [])))"
    using h5 by (simp add: list_all_iff)
  have q6: "\<forall>i. \<not> list_all2 inClass dateRegex (take 10 (drop i ''mydb-backup''))"
    using h6 unfolding regexMatch_None_iff len .
  note t = extractDate_patterns
    [where ts = "''2024-01-15-03-30-00''" and pre = "''mydb-''" and post = "[]"
       and ds = "''2024-01-15''" and nm = "''mydb-backup''" and client = scripted
       and cfg = exampleConfig
       and w = "[Inr (ListObjectsV2Output None
               (Some [Some ''backups/mongodb/mydb-2024-01-15/'',
                      Some ''backups/mongodb/mydb-backup/'']))]"
       and bs = "[\<lparr>name = ''mydb-2024-01-15'', date = TimeValue 1705276800000\<rparr>]"
       and w' = "[]"
       and t = "[Printed (ListingLine ''env-bucket'' ''backups/mongodb/''),
         Sent (ListObjectsV2 ''env-bucket'' ''backups/mongodb/'' (Some ''/'')),
         Printed (UnparsableWarning ''mydb-backup'')]"]
  from t h1 q2 have r1: "extractDateFromBackupName (''mydb-'' @ ''2024-01-15-03-30-00'' @ [])
     = Some (isoDate 2024 1 15 3 30 0)"
    unfolding f1 by blast
  from t q3 h4 q5 have r2: "extractDateFromBackupName (''mydb-'' @ ''2024-01-15'' @ [])
     = Some (isoDate 2024 1 15 0 0 0)"
    unfolding f2 by blast
  from t q6 have r3: "extractDateFromBackupName ''mydb-backup'' = None"
    by blast
  from t h7 r3 have r4: "''mydb-backup'' \<notin> name ` set [\<lparr>name = ''mydb-2024-01-15'', date = TimeValue 1705276800000\<rparr>]"
    by blast
  from h1 h2 r1 v h3 h4 h5 r2 h6 r3 h7 r4 show ?thesis
    by blast
qed

section \<open>Names with impossible calendar dates\<close>

text \<open>
  C10. Every folder whose name holds an occurrence of one of the two patterns gets
  an entry in the listing, whatever its digits are: the name \<open>db-2024-13-99\<close>
  matches the bare-date pattern, its date is invalid, and the lister returns the
  entry with that invalid date. An invalid date is neither before a cutoff nor at
  or after it, so such an entry is in neither part of the partition.
\<close>

theorem lister_keeps_invalid_dates:
  "(send client (ListObjectsV2 (s3_bucket cfg) (listingPrefix cfg) (Some ''/'')) w
      = (Inr response, wa, ta) \<and>
    p \<in> set (prefixesOf response) \<and> folderName (listingPrefix cfg) p = nm \<and> nm \<noteq> [] \<and>
    (list_all2 inClass timestampRegex (take 19 (drop i nm)) \<or>
     list_all2 inClass dateRegex (take 10 (drop i nm)))
    \<longrightarrow> (\<exists>bs t d. listBackupsWithDates client cfg w = (Inr bs, wa, t) \<and>
                   extractDateFromBackupName nm = Some d \<and>
                   \<lparr>name = nm, date = d\<rparr> \<in> set bs)) \<and>
   regexMatch timestampRegex ''db-2024-13-99'' = None \<and>
   regexMatch dateRegex ''db-2024-13-99'' = Some ''2024-13-99'' \<and>
   extractDateFromBackupName ''db-2024-13-99'' = Some InvalidDate \<and>
   listBackupsWithDates scripted exampleConfig
       [Inr (ListObjectsV2Output None (Some [Some ''backups/mongodb/db-2024-13-99/'']))]
     = (Inr [\<lparr>name = ''db-2024-13-99'', date = InvalidDate\<rparr>], [],
        [Printed (ListingLine ''env-bucket'' ''backups/mongodb/''),
         Sent (ListObjectsV2 ''env-bucket'' ''backups/mongodb/'' (Some ''/''))]) \<and>
   \<not> date_lt InvalidDate cutoff \<and> \<not> date_ge InvalidDate cutoff \<and>
   (date b = InvalidDate
    \<longrightarrow> b \<notin> set (backupsToDelete cutoff backups) \<and> b \<notin> set (backupsToKeep cutoff backups))"
proof -
  have included: "\<exists>bs t d. listBackupsWithDates client cfg w = (Inr bs, wa, t) \<and>
                   extractDateFromBackupName nm = Some d \<and>
                   \<lparr>name = nm, date = d\<rparr> \<in> set bs"
    if s: "send client (ListObjectsV2 (s3_bucket cfg) (listingPrefix cfg) (Some ''/'')) w
             = (Inr response, wa, ta)"
      and p: "p \<in> set (prefixesOf response)" "folderName (listingPrefix cfg) p = nm" "nm \<noteq> []"
      and m: "list_all2 inClass timestampRegex (take 19 (drop i nm)) \<or>
              list_all2 inClass dateRegex (take 10 (drop i nm))"
  proof -
    obtain backups warnings where
      c: "collectBackups (listingPrefix cfg) (prefixesOf response) [] [] = (backups, warnings)"
      by (cases "collectBackups (listingPrefix cfg) (prefixesOf response) [] []")
    from extract_of_match [OF m] obtain d where d: "extractDateFromBackupName nm = Some d"
      by blast
    from collectBackups_includes [OF c] p d have "\<lparr>name = nm, date = d\<rparr> \<in> set backups"
      by blast
    moreover from s c have "listBackupsWithDates client cfg w =
        (Inr (sortBackups backups), wa,
         Printed (ListingLine (s3_bucket cfg) (listingPrefix cfg)) # ta @ map Printed warnings)"
      by (simp add: listBackupsWithDates_def Let_def)
    ultimately show ?thesis
      using d by simp
  qed
  have e1: "regexMatch timestampRegex ''db-2024-13-99'' = None"
    by code_simp
  have e2: "regexMatch dateRegex ''db-2024-13-99'' = Some ''2024-13-99''"
    by code_simp
  have e3: "extractDateFromBackupName ''db-2024-13-99'' = Some InvalidDate"
    by code_simp
  have e4: "listBackupsWithDates scripted exampleConfig
       [Inr (ListObjectsV2Output None (Some [Some ''backups/mongodb/db-2024-13-99/'']))]
     = (Inr [\<lparr>name = ''db-2024-13-99'', date = InvalidDate\<rparr>], [],
        [Printed (ListingLine ''env-bucket'' ''backups/mongodb/''),
         Sent (ListObjectsV2 ''env-bucket'' ''backups/mongodb/'' (Some ''/''))])"
    by code_simp
  have neither: "b \<notin> set (backupsToDelete cutoff backups) \<and> b \<notin> set (backupsToKeep cutoff backups)"
    if "date b = InvalidDate"
    using that by (simp add: backupsToDelete_def backupsToKeep_def)
  from included e1 e2 e3 e4 neither show ?thesis
    by (intro conjI impI) (blast, simp_all)
qed

theorem lister_keeps_invalid_dates_witness:
  "send scripted (ListObjectsV2 (s3_bucket exampleConfig) (listingPrefix exampleConfig) (Some ''/''))
        [Inr (ListObjectsV2Output None (Some [Some ''backups/mongodb/db-2024-13-99/'']))]
     = (Inr (ListObjectsV2Output None (Some [Some ''backups/mongodb/db-2024-13-99/''])), [],
        [Sent (ListObjectsV2 ''env-bucket'' ''backups/mongodb/'' (Some ''/''))]) \<and>
   ''backups/mongodb/db-2024-13-99/''
     \<in> set (prefixesOf (ListObjectsV2Output None (Some [Some ''backups/mongodb/db-2024-13-99/'']))) \<and>
   folderName (listingPrefix exampleConfig) ''backups/mongodb/db-2024-13-99/'' = ''db-2024-13-99'' \<and>
   ''db-2024-13-99'' \<noteq> [] \<and>
   list_all2 inClass dateRegex (take 10 (drop 3 ''db-2024-13-99'')) \<and>
   (\<exists>bs t d. listBackupsWithDates scripted exampleConfig
                 [Inr (ListObjectsV2Output None (Some [Some ''backups/mongodb/db-2024-13-99/'']))]
                = (Inr bs, [], t) \<and>
              extractDateFromBackupName ''db-2024-13-99'' = Some d \<and>
              \<lparr>name = ''db-2024-13-99'', date = d\<rparr> \<in> set bs) \<and>
   date \<lparr>name = ''db-2024-13-99'', date = InvalidDate\<rparr> = InvalidDate \<and>
   \<lparr>name = ''db-2024-13-99'', date = InvalidDate\<rparr>
     \<notin> set (backupsToDelete (cutoffDate utcZone exampleNow 14)
                [\<lparr>name = ''db-2024-13-99'', date = InvalidDate\<rparr>]) \<and>
   \<lparr>name = ''db-2024-13-99'', date = InvalidDate\<rparr>
     \<notin> set (backupsToKeep (cutoffDate utcZone exampleNow 14)
                [\<lparr>name = ''db-2024-13-99'', date = InvalidDate\<rparr>])"
proof -
  have h1: "send scripted (ListObjectsV2 (s3_bucket exampleConfig) (listingPrefix exampleConfig) (Some ''/''))
        [Inr (ListObjectsV2Output None (Some [Some ''backups/mongodb/db-2024-13-99/'']))]
     = (Inr (ListObjectsV2Output None (Some [Some ''backups/mongodb/db-2024-13-99/''])), [],
        [Sent (ListObjectsV2 ''env-bucket'' ''backups/mongodb/'' (Some ''/''))])"
    by code_simp
  have h2: "''backups/mongodb/db-2024-13-99/''
     \<in> set (prefixesOf (ListObjectsV2Output None (Some [Some ''backups/mongodb/db-2024-13-99/''])))"
    by (simp add: prefixesOf_def)
  have h3: "folderName (listingPrefix exampleConfig) ''backups/mongodb/db-2024-13-99/'' = ''db-2024-13-99''"
    by code_simp
  have h4: "list_all2 inClass dateRegex (take 10 (drop 3 ''db-2024-13-99''))"
    by code_simp
  note t = lister_keeps_invalid_dates
    [where client = scripted and cfg = exampleConfig
       and w = "[Inr (ListObjectsV2Output None (Some [Some ''backups/mongodb/db-2024-13-99/'']))]"
       and response = "ListObjectsV2Output None (Some [Some ''backups/mongodb/db-2024-13-99/''])"
       and wa = "[]"
       and ta = "[Sent (ListObjectsV2 ''env-bucket'' ''backups/mongodb/'' (Some ''/''))]"
       and p = "''backups/mongodb/db-2024-13-99/''" and nm = "''db-2024-13-99''" and i = 3
       and b = "\<lparr>name = ''db-2024-13-99'', date = InvalidDate\<rparr>"
       and cutoff = "cutoffDate utcZone exampleNow 14"
       and backups = "[\<lparr>name = ''db-2024-13-99'', date = InvalidDate\<rparr>]"]
  from t h1 h2 h3 h4 show ?thesis
    by simp
qed

section \<open>The partition by the cutoff\<close>

text \<open>
  C1. As the claim is worded it fails: the lister can return a backup whose date is
  invalid, and such a backup lands in neither \<open>toDelete\<close> nor \<open>toKeep\<close>. The run
  below finds one backup, keeps none and deletes none.
\<close>

theorem partition_misses_invalid_date:
  "(0::int) < 14 \<and>
   cutoffDate utcZone exampleNow 14 = TimeValue 1792411200000 \<and>
   fst (listBackupsWithDates scripted exampleConfig
          [Inr (ListObjectsV2Output None (Some [Some ''backups/mongodb/db-2024-13-99/'']))])
     = Inr [\<lparr>name = ''db-2024-13-99'', date = InvalidDate\<rparr>] \<and>
   \<lparr>name = ''db-2024-13-99'', date = InvalidDate\<rparr>
     \<notin> set (backupsToDelete (TimeValue 1792411200000)
                [\<lparr>name = ''db-2024-13-99'', date = InvalidDate\<rparr>]) \<and>
   \<lparr>name = ''db-2024-13-99'', date = InvalidDate\<rparr>
     \<notin> set (backupsToKeep (TimeValue 1792411200000)
                [\<lparr>name = ''db-2024-13-99'', date = InvalidDate\<rparr>]) \<and>
   runPrune (exampleOptions\<lparr>days := Some 14\<rparr>) exampleEnv utcZone exampleNow scripted
       [Inr (ListObjectsV2Output None (Some [Some ''backups/mongodb/db-2024-13-99/'']))]
     = (Exit 0, [],
        [Printed (PruneHeader 14), Printed (CutoffLine 1792411200000),
         Printed (ListingLine ''env-bucket'' ''backups/mongodb/''),
         Sent (ListObjectsV2 ''env-bucket'' ''backups/mongodb/'' (Some ''/'')),
         Printed (FoundSummary 1 0 0), Printed NoBackupsToPrune])"
proof -
  have a: "cutoffDate utcZone exampleNow 14 = TimeValue 1792411200000"
    by code_simp
  have b: "fst (listBackupsWithDates scripted exampleConfig
          [Inr (ListObjectsV2Output None (Some [Some ''backups/mongodb/db-2024-13-99/'']))])
     = Inr [\<lparr>name = ''db-2024-13-99'', date = InvalidDate\<rparr>]"
    by code_simp
  have c: "runPrune (exampleOptions\<lparr>days := Some 14\<rparr>) exampleEnv utcZone exampleNow scripted
       [Inr (ListObjectsV2Output None (Some [Some ''backups/mongodb/db-2024-13-99/'']))]
     = (Exit 0, [],
        [Printed (PruneHeader 14), Printed (CutoffLine 1792411200000),
         Printed (ListingLine ''env-bucket'' ''backups/mongodb/''),
         Sent (ListObjectsV2 ''env-bucket'' ''backups/mongodb/'' (Some ''/'')),
         Printed (FoundSummary 1 0 0), Printed NoBackupsToPrune])"
    by code_simp
  from a b c show ?thesis
    by (simp add: backupsToDelete_def backupsToKeep_def)
qed

text \<open>
  C1, amended. Whenever the cutoff is a valid date (otherwise the run ends with a
  RangeError before it partitions), \<open>toDelete\<close> and \<open>toKeep\<close> are disjoint, and every
  listed backup with a valid date is in exactly one of them: in \<open>toDelete\<close> when
  its date is strictly before the cutoff, in \<open>toKeep\<close> otherwise; a backup dated
  exactly at the cutoff is kept.
\<close>

theorem partition_by_cutoff:
  "cutoffDate tz now d = TimeValue c \<longrightarrow>
     set (backupsToDelete (TimeValue c) bs) \<inter> set (backupsToKeep (TimeValue c) bs) = {} \<and>
     (b \<in> set bs \<and> date b = TimeValue t \<longrightarrow>
        (t < c \<longrightarrow> b \<in> set (backupsToDelete (TimeValue c) bs) \<and>
                   b \<notin> set (backupsToKeep (TimeValue c) bs)) \<and>
        (\<not> t < c \<longrightarrow> b \<in> set (backupsToKeep (TimeValue c) bs) \<and>
                     b \<notin> set (backupsToDelete (TimeValue c) bs))) \<and>
     (b \<in> set bs \<and> date b = TimeValue c \<longrightarrow>
        b \<in> set (backupsToKeep (TimeValue c) bs) \<and>
        b \<notin> set (backupsToDelete (TimeValue c) bs))"
proof -
  have "\<not> (date_lt x (TimeValue c) \<and> date_ge x (TimeValue c))" for x
    by (cases x) auto
  then have "set (backupsToDelete (TimeValue c) bs) \<inter> set (backupsToKeep (TimeValue c) bs) = {}"
    by (auto simp: backupsToDelete_def backupsToKeep_def)
  then show ?thesis
    by (auto simp: backupsToDelete_def backupsToKeep_def)
qed

theorem partition_by_cutoff_witness:
  "cutoffDate utcZone exampleNow 14 = TimeValue 1792411200000 \<and>
   extractDateFromBackupName ''mydb-2024-01-15'' = Some (TimeValue 1705276800000) \<and>
   extractDateFromBackupName ''mydb-2026-10-19-12-00-00'' = Some (TimeValue 1792411200000) \<and>
   extractDateFromBackupName ''mydb-2026-11-01'' = Some (TimeValue 1793491200000) \<and>
   (1705276800000 :: int) < 1792411200000 \<and> \<not> (1793491200000 :: int) < 1792411200000 \<and>
   backupsToDelete (TimeValue 1792411200000)
     [\<lparr>name = ''mydb-2026-11-01'', date = TimeValue 1793491200000\<rparr>,
      \<lparr>name = ''mydb-2026-10-19-12-00-00'', date = TimeValue 1792411200000\<rparr>,
      \<lparr>name = ''mydb-2024-01-15'', date = TimeValue 1705276800000\<rparr>]
     = [\<lparr>name = ''mydb-2024-01-15'', date = TimeValue 1705276800000\<rparr>] \<and>
   backupsToKeep (TimeValue 1792411200000)
     [\<lparr>name = ''mydb-2026-11-01'', date = TimeValue 1793491200000\<rparr>,
      \<lparr>name = ''mydb-2026-10-19-12-00-00'', date = TimeValue 1792411200000\<rparr>,
      \<lparr>name = ''mydb-2024-01-15'', date = TimeValue 1705276800000\<rparr>]
     = [\<lparr>name = ''mydb-2026-11-01'', date = TimeValue 1793491200000\<rparr>,
        \<lparr>name = ''mydb-2026-10-19-12-00-00'', date = TimeValue 1792411200000\<rparr>] \<and>
   \<lparr>name = ''mydb-2024-01-15'', date = TimeValue 1705276800000\<rparr>
     \<in> set (backupsToDelete (TimeValue 1792411200000)
     [\<lparr>name = ''mydb-2026-11-01'', date = TimeValue 1793491200000\<rparr>,
      \<lparr>name = ''mydb-2026-10-19-12-00-00'', date = TimeValue 1792411200000\<rparr>,
      \<lparr>name = ''mydb-2024-01-15'', date = TimeValue 1705276800000\<rparr>]) \<and>
   \<lparr>name = ''mydb-2026-10-19-12-00-00'', date = TimeValue 1792411200000\<rparr>
     \<in> set (backupsToKeep (TimeValue 1792411200000)
     [\<lparr>name = ''mydb-2026-11-01'', date = TimeValue 1793491200000\<rparr>,
      \<lparr>name = ''mydb-2026-10-19-12-00-00'', date = TimeValue 1792411200000\<rparr>,
      \<lparr>name = ''mydb-2024-01-15'', date = TimeValue 1705276800000\<rparr>]) \<and>
   \<lparr>name = ''mydb-2026-11-01'', date = TimeValue 1793491200000\<rparr>
     \<in> set (backupsToKeep (TimeValue 1792411200000)
     [\<lparr>name = ''mydb-2026-11-01'', date = TimeValue 1793491200000\<rparr>,
      \<lparr>name = ''mydb-2026-10-19-12-00-00'', date = TimeValue 1792411200000\<rparr>,
      \<lparr>name = ''mydb-2024-01-15'', date = TimeValue 1705276800000\<rparr>])"
proof -
  let ?old = "\<lparr>name = ''mydb-2024-01-15'', date = TimeValue 1705276800000\<rparr>"
  let ?edge = "\<lparr>name = ''mydb-2026-10-19-12-00-00'', date = TimeValue 1792411200000\<rparr>"
  let ?new = "\<lparr>name = ''mydb-2026-11-01'', date = TimeValue 1793491200000\<rparr>"
  have c: "cutoffDate utcZone exampleNow 14 = TimeValue 1792411200000"
    by code_simp
  have e: "extractDateFromBackupName ''mydb-2024-01-15'' = Some (TimeValue 1705276800000)"
    "extractDateFromBackupName ''mydb-2026-10-19-12-00-00'' = Some (TimeValue 1792411200000)"
    "extractDateFromBackupName ''mydb-2026-11-01'' = Some (TimeValue 1793491200000)"
    by code_simp+
  note t = partition_by_cutoff [where tz = utcZone and now = exampleNow and d = 14
      and c = 1792411200000 and bs = "[?new, ?edge, ?old]"]
  have "?old \<in> set (backupsToDelete (TimeValue 1792411200000) [?new, ?edge, ?old])"
    using t [where b = ?old and t = 1705276800000] c by simp
  moreover have "?edge \<in> set (backupsToKeep (TimeValue 1792411200000) [?new, ?edge, ?old])"
    using t [where b = ?edge and t = 1792411200000] c by simp
  moreover have "?new \<in> set (backupsToKeep (TimeValue 1792411200000) [?new, ?edge, ?old])"
    using t [where b = ?new and t = 1793491200000] c by simp
  ultimately show ?thesis
    using c e by (simp add: backupsToDelete_def backupsToKeep_def)
qed

section \<open>A backup without objects\<close>

text \<open>
  C6. \<open>deleteBackup\<close> ends with the error "no backup found" exactly when its listing
  request succeeds and yields no objects (no \<open>Contents\<close>, or an empty one); it has
  then sent the listing request and nothing else. In the object store: a path
  without keys gives this error and leaves the store as it was, and after a
  deletion that returned a result for a path of at most 1000 keys, deleting the
  same path again gives this error.
\<close>

theorem deleteBackup_not_found:
  "((\<exists>b p. fst (deleteBackup client cfg bn w) = Inl (NoBackupFound b p)) \<longleftrightarrow>
    (\<exists>out wa ta.
       send client (ListObjectsV2 (s3_bucket cfg) (backupPath cfg bn) None) w = (Inr out, wa, ta) \<and>
       (Contents out = None \<or> Contents out = Some []))) \<and>
   (send client (ListObjectsV2 (s3_bucket cfg) (backupPath cfg bn) None) w = (Inr out, wa, ta) \<and>
    (Contents out = None \<or> Contents out = Some [])
    \<longrightarrow> deleteBackup client cfg bn w =
          (Inl (NoBackupFound (s3_bucket cfg) (backupPath cfg bn)), wa,
           [Sent (ListObjectsV2 (s3_bucket cfg) (backupPath cfg bn) None)])) \<and>
   (filter (\<lambda>k. startsWith k (backupPath cfg bn)) (s (s3_bucket cfg)) = []
    \<longrightarrow> deleteBackup storeService cfg bn s =
          (Inl (NoBackupFound (s3_bucket cfg) (backupPath cfg bn)), s,
           [Sent (ListObjectsV2 (s3_bucket cfg) (backupPath cfg bn) None)])) \<and>
   (deleteBackup storeService cfg bn s = (Inr res, s', t) \<and>
    length (filter (\<lambda>k. startsWith k (backupPath cfg bn)) (s (s3_bucket cfg))) \<le> 1000
    \<longrightarrow> deleteBackup storeService cfg bn s' =
          (Inl (NoBackupFound (s3_bucket cfg) (backupPath cfg bn)), s',
           [Sent (ListObjectsV2 (s3_bucket cfg) (backupPath cfg bn) None)]))"
proof (intro conjI impI iffI)
  assume "\<exists>b p. fst (deleteBackup client cfg bn w) = Inl (NoBackupFound b p)"
  then obtain b p where nf: "fst (deleteBackup client cfg bn w) = Inl (NoBackupFound b p)"
    by blast
  obtain lr wa ta where
    l: "send client (ListObjectsV2 (s3_bucket cfg) (backupPath cfg bn) None) w = (lr, wa, ta)"
    by (cases "send client (ListObjectsV2 (s3_bucket cfg) (backupPath cfg bn) None) w")
  have "\<not> (\<forall>out. lr = Inr out \<longrightarrow> Contents out \<noteq> None \<and> Contents out \<noteq> Some [])"
  proof
    assume "\<forall>out. lr = Inr out \<longrightarrow> Contents out \<noteq> None \<and> Contents out \<noteq> Some []"
    from deleteBackup_found [OF l this, of b p] nf show False
      by simp
  qed
  then have "\<exists>out. lr = Inr out \<and> (Contents out = None \<or> Contents out = Some [])"
    by simp
  then obtain out where "lr = Inr out" "Contents out = None \<or> Contents out = Some []"
    by (elim exE conjE)
  with l show "\<exists>out wa ta.
       send client (ListObjectsV2 (s3_bucket cfg) (backupPath cfg bn) None) w = (Inr out, wa, ta) \<and>
       (Contents out = None \<or> Contents out = Some [])"
    by blast
next
  assume "\<exists>out wa ta.
       send client (ListObjectsV2 (s3_bucket cfg) (backupPath cfg bn) None) w = (Inr out, wa, ta) \<and>
       (Contents out = None \<or> Contents out = Some [])"
  then obtain out wa ta where
    "send client (ListObjectsV2 (s3_bucket cfg) (backupPath cfg bn) None) w = (Inr out, wa, ta)"
    "Contents out = None \<or> Contents out = Some []"
    by blast
  from deleteBackup_notFound [OF this]
  show "\<exists>b p. fst (deleteBackup client cfg bn w) = Inl (NoBackupFound b p)"
    by auto
next
  assume "send client (ListObjectsV2 (s3_bucket cfg) (backupPath cfg bn) None) w = (Inr out, wa, ta) \<and>
    (Contents out = None \<or> Contents out = Some [])"
  then have l: "send client (ListObjectsV2 (s3_bucket cfg) (backupPath cfg bn) None) w = (Inr out, wa, ta)"
    and c: "Contents out = None \<or> Contents out = Some []"
    by simp_all
  show "deleteBackup client cfg bn w =
          (Inl (NoBackupFound (s3_bucket cfg) (backupPath cfg bn)), wa,
           [Sent (ListObjectsV2 (s3_bucket cfg) (backupPath cfg bn) None)])"
    by (rule deleteBackup_notFound [OF l c])
next
  assume "filter (\<lambda>k. startsWith k (backupPath cfg bn)) (s (s3_bucket cfg)) = []"
  then show "deleteBackup storeService cfg bn s =
          (Inl (NoBackupFound (s3_bucket cfg) (backupPath cfg bn)), s,
           [Sent (ListObjectsV2 (s3_bucket cfg) (backupPath cfg bn) None)])"
    by (rule store_deleteBackup_none [of cfg bn])
next
  assume a: "deleteBackup storeService cfg bn s = (Inr res, s', t) \<and>
    length (filter (\<lambda>k. startsWith k (backupPath cfg bn)) (s (s3_bucket cfg))) \<le> 1000"
  have ne: "filter (\<lambda>k. startsWith k (backupPath cfg bn)) (s (s3_bucket cfg)) \<noteq> []"
  proof
    assume "filter (\<lambda>k. startsWith k (backupPath cfg bn)) (s (s3_bucket cfg)) = []"
    from store_deleteBackup_none [of cfg bn s, OF this] a show False
      by simp
  qed
  from a store_deleteBackup_all [of cfg bn s, OF _ ne]
  have "s' = s(s3_bucket cfg := filter (\<lambda>k. \<not> startsWith k (backupPath cfg bn)) (s (s3_bucket cfg)))"
    by simp
  then have "filter (\<lambda>k. startsWith k (backupPath cfg bn)) (s' (s3_bucket cfg)) = []"
    by simp
  then show "deleteBackup storeService cfg bn s' =
          (Inl (NoBackupFound (s3_bucket cfg) (backupPath cfg bn)), s',
           [Sent (ListObjectsV2 (s3_bucket cfg) (backupPath cfg bn) None)])"
    by (rule store_deleteBackup_none [of cfg bn])
qed

theorem deleteBackup_not_found_witness:
  "send scripted (ListObjectsV2 ''env-bucket'' ''backups/mongodb/mydb-2024-01-15'' None)
        [Inr (ListObjectsV2Output None None)]
     = (Inr (ListObjectsV2Output None None), [],
        [Sent (ListObjectsV2 ''env-bucket'' ''backups/mongodb/mydb-2024-01-15'' None)]) \<and>
   Contents (ListObjectsV2Output None None) = None \<and>
   deleteBackup scripted exampleConfig ''mydb-2024-01-15'' [Inr (ListObjectsV2Output None None)]
     = (Inl (NoBackupFound ''env-bucket'' ''backups/mongodb/mydb-2024-01-15''), [],
        [Sent (ListObjectsV2 ''env-bucket'' ''backups/mongodb/mydb-2024-01-15'' None)]) \<and>
   filter (\<lambda>k. startsWith k ''backups/mongodb/mydb-2023-12-31'') (exampleStore ''env-bucket'') = [] \<and>
   deleteBackup storeService exampleConfig ''mydb-2023-12-31'' exampleStore
     = (Inl (NoBackupFound ''env-bucket'' ''backups/mongodb/mydb-2023-12-31''), exampleStore,
        [Sent (ListObjectsV2 ''env-bucket'' ''backups/mongodb/mydb-2023-12-31'' None)]) \<and>
   deleteBackup storeService exampleConfig ''mydb-2026-11-01'' exampleStore
     = (Inr \<lparr>backupName = ''mydb-2026-11-01'', deletedFiles = 1\<rparr>,
        exampleStore(''env-bucket'' := [''backups/mongodb/mydb-2024-01-15-03-30-00/dump.gz'',
                                        ''backups/mongodb/mydb-2024-01-15/dump.gz'']),
        [Sent (ListObjectsV2 ''env-bucket'' ''backups/mongodb/mydb-2026-11-01'' None),
         Sent (DeleteObjects ''env-bucket'' [''backups/mongodb/mydb-2026-11-01/dump.gz''])]) \<and>
   length (filter (\<lambda>k. startsWith k ''backups/mongodb/mydb-2026-11-01'')
             (exampleStore ''env-bucket'')) \<le> 1000 \<and>
   deleteBackup storeService exampleConfig ''mydb-2026-11-01''
       (exampleStore(''env-bucket'' := [''backups/mongodb/mydb-2024-01-15-03-30-00/dump.gz'',
                                        ''backups/mongodb/mydb-2024-01-15/dump.gz'']))
     = (Inl (NoBackupFound ''env-bucket'' ''backups/mongodb/mydb-2026-11-01''),
        exampleStore(''env-bucket'' := [''backups/mongodb/mydb-2024-01-15-03-30-00/dump.gz'',
                                        ''backups/mongodb/mydb-2024-01-15/dump.gz'']),
        [Sent (ListObjectsV2 ''env-bucket'' ''backups/mongodb/mydb-2026-11-01'' None)])"
proof -
  let ?rest = "exampleStore(''env-bucket'' := [''backups/mongodb/mydb-2024-01-15-03-30-00/dump.gz'',
                                               ''backups/mongodb/mydb-2024-01-15/dump.gz''])"
  have first: "deleteBackup storeService exampleConfig ''mydb-2026-11-01'' exampleStore
     = (Inr \<lparr>backupName = ''mydb-2026-11-01'', deletedFiles = 1\<rparr>, ?rest,
        [Sent (ListObjectsV2 ''env-bucket'' ''backups/mongodb/mydb-2026-11-01'' None),
         Sent (DeleteObjects ''env-bucket'' [''backups/mongodb/mydb-2026-11-01/dump.gz''])])"
    using store_deleteBackup_all [of exampleConfig "''mydb-2026-11-01''" exampleStore]
    by (simp add: example_paths example_matches)
  show ?thesis
    using first
      deleteBackup_not_found [where client = scripted and cfg = exampleConfig and bn = "''mydb-2024-01-15''"
             and w = "[Inr (ListObjectsV2Output None None)]"
             and out = "ListObjectsV2Output None None" and wa = "[]"
             and ta = "[Sent (ListObjectsV2 ''env-bucket'' ''backups/mongodb/mydb-2024-01-15'' None)]",
           THEN conjunct2, THEN conjunct1]
      deleteBackup_not_found [where cfg = exampleConfig and bn = "''mydb-2023-12-31''" and s = exampleStore,
           THEN conjunct2, THEN conjunct2, THEN conjunct1]
      deleteBackup_not_found [where cfg = exampleConfig and bn = "''mydb-2026-11-01''" and s = exampleStore
             and s' = ?rest, THEN conjunct2, THEN conjunct2, THEN conjunct2]
    by (simp add: example_paths example_matches send_def scripted_def)
qed

section \<open>Bucket and prefix overrides\<close>

text \<open>
  C9. \<open>runPrune\<close> hands \<open>options.bucket\<close> and \<open>options.prefix\<close> to \<open>loadConfig\<close>, which
  takes no argument: the run is the same whatever the two options hold. With
  \<open>S3_BUCKET=env-bucket\<close> and no \<open>S3_PREFIX\<close> in the environment, a run with the
  options \<open>other-bucket\<close> and \<open>other/prefix\<close> lists \<open>env-bucket\<close> under
  \<open>backups/mongodb/\<close>.
\<close>

theorem runPrune_ignores_overrides:
  "runPrune (options\<lparr>bucket := b, prefix := p\<rparr>) env tz now client w
     = runPrune options env tz now client w \<and>
   loadConfig exampleEnv = Inr exampleConfig \<and>
   runPrune (exampleOptions\<lparr>bucket := Some ''other-bucket'', prefix := Some ''other/prefix''\<rparr>)
       exampleEnv utcZone exampleNow scripted [Inr (ListObjectsV2Output None None)]
     = (Exit 0, [],
        [Printed (PruneHeader 14), Printed (CutoffLine 1792411200000),
         Printed (ListingLine ''env-bucket'' ''backups/mongodb/''),
         Sent (ListObjectsV2 ''env-bucket'' ''backups/mongodb/'' (Some ''/'')),
         Printed NoBackupsFound])"
proof -
  have sel: "dryRun (options\<lparr>bucket := b, prefix := p\<rparr>) = dryRun options"
    "days (options\<lparr>bucket := b, prefix := p\<rparr>) = days options"
    by simp_all
  have body: "pruneBody (options\<lparr>bucket := b, prefix := p\<rparr>) env cutoff client w
     = pruneBody options env cutoff client w" for cutoff
    unfolding pruneBody_def sel ..
  have "runPrune (options\<lparr>bucket := b, prefix := p\<rparr>) env tz now client w
     = runPrune options env tz now client w"
    unfolding runPrune_def sel body ..
  moreover have "loadConfig exampleEnv = Inr exampleConfig"
    by code_simp
  moreover have "runPrune (exampleOptions\<lparr>bucket := Some ''other-bucket'', prefix := Some ''other/prefix''\<rparr>)
       exampleEnv utcZone exampleNow scripted [Inr (ListObjectsV2Output None None)]
     = (Exit 0, [],
        [Printed (PruneHeader 14), Printed (CutoffLine 1792411200000),
         Printed (ListingLine ''env-bucket'' ''backups/mongodb/''),
         Sent (ListObjectsV2 ''env-bucket'' ''backups/mongodb/'' (Some ''/'')),
         Printed NoBackupsFound])"
    by code_simp
  ultimately show ?thesis
    by blast
qed

section \<open>Dry run\<close>

text \<open>
  C8. In a dry run that finds backups to delete, the run exits with status 0, the
  only request it sends is the lister's, the service is left in the state the
  listing left it in, and the console output ends with the list of the backups to
  be deleted. Every call of \<open>deleteBackup\<close> sends a listing request without
  delimiter for the backup's path, so no such call was made.
\<close>

theorem dry_run_deletes_nothing:
  "(cutoffDate tz now (fst (getPruneDays (days options) (env ''PRUNE_DAYS''))) = TimeValue c \<and>
    loadConfig env = Inr cfg \<and>
    listBackupsWithDates client cfg w = (Inr backups, wa, ta) \<and>
    backupsToDelete (TimeValue c) backups \<noteq> [] \<and>
    dryRun options = Some True
    \<longrightarrow> (\<exists>t ls.
           runPrune options env tz now client w = (Exit 0, wa, t) \<and>
           requests t = [ListObjectsV2 (s3_bucket cfg) (listingPrefix cfg) (Some ''/'')] \<and>
           printed t = ls @ ToBeDeletedHeader
                         # map (\<lambda>b. ToBeDeletedLine (name b) (date b))
                               (backupsToDelete (TimeValue c) backups)
                         @ [BlankLine, DryRunComplete])) \<and>
   (deleteBackup client cfg bn wx = (r, wy, ty)
    \<longrightarrow> ListObjectsV2 (s3_bucket cfg) (backupPath cfg bn) None \<in> set (requests ty))"
proof (intro conjI impI)
  assume a: "cutoffDate tz now (fst (getPruneDays (days options) (env ''PRUNE_DAYS''))) = TimeValue c \<and>
    loadConfig env = Inr cfg \<and>
    listBackupsWithDates client cfg w = (Inr backups, wa, ta) \<and>
    backupsToDelete (TimeValue c) backups \<noteq> [] \<and>
    dryRun options = Some True"
  obtain pd warnings where g: "getPruneDays (days options) (env ''PRUNE_DAYS'') = (pd, warnings)"
    by (cases "getPruneDays (days options) (env ''PRUNE_DAYS'')")
  from a have l: "listBackupsWithDates client cfg w = (Inr backups, wa, ta)"
    by simp
  from a have ne: "backups \<noteq> []"
    by (auto simp: backupsToDelete_def)
  let ?toDelete = "backupsToDelete (TimeValue c) backups"
  let ?ls = "warnings @ [PruneHeader pd, CutoffLine c, DryRunBanner] @ printed ta
             @ [FoundSummary (length backups) (length (backupsToKeep (TimeValue c) backups))
                  (length ?toDelete)]"
  let ?t = "map Printed (warnings @ [PruneHeader pd]) @ map Printed [CutoffLine c, DryRunBanner]
            @ ta @ [Printed (FoundSummary (length backups)
                     (length (backupsToKeep (TimeValue c) backups)) (length ?toDelete))]
            @ map Printed ([ToBeDeletedHeader]
                           @ map (\<lambda>b. ToBeDeletedLine (name b) (date b)) ?toDelete
                           @ [BlankLine])
            @ [Printed DryRunComplete]"
  have body: "pruneBody options env (TimeValue c) client w =
          (Inr 0, wa,
           ta @ [Printed (FoundSummary (length backups)
                     (length (backupsToKeep (TimeValue c) backups)) (length ?toDelete))]
            @ map Printed ([ToBeDeletedHeader]
                           @ map (\<lambda>b. ToBeDeletedLine (name b) (date b)) ?toDelete
                           @ [BlankLine])
            @ [Printed DryRunComplete])"
    using a ne by (simp add: pruneBody_def Let_def)
  have run: "runPrune options env tz now client w = (Exit 0, wa, ?t)"
    using a g body by (simp add: runPrune_def Let_def)
  moreover have "requests ?t = [ListObjectsV2 (s3_bucket cfg) (listingPrefix cfg) (Some ''/'')]"
    using listBackupsWithDates_requests [OF l] by simp
  moreover have "printed ?t = ?ls @ ToBeDeletedHeader
                         # map (\<lambda>b. ToBeDeletedLine (name b) (date b)) ?toDelete
                         @ [BlankLine, DryRunComplete]"
    by simp
  ultimately show "\<exists>t ls.
           runPrune options env tz now client w = (Exit 0, wa, t) \<and>
           requests t = [ListObjectsV2 (s3_bucket cfg) (listingPrefix cfg) (Some ''/'')] \<and>
           printed t = ls @ ToBeDeletedHeader
                         # map (\<lambda>b. ToBeDeletedLine (name b) (date b))
                               (backupsToDelete (TimeValue c) backups)
                         @ [BlankLine, DryRunComplete]"
    by blast
next
  assume "deleteBackup client cfg bn wx = (r, wy, ty)"
  from deleteBackup_trace [OF this]
  show "ListObjectsV2 (s3_bucket cfg) (backupPath cfg bn) None \<in> set (requests ty)"
    by auto
qed

theorem dry_run_deletes_nothing_witness:
  "cutoffDate utcZone exampleNow
     (fst (getPruneDays (days (exampleOptions\<lparr>dryRun := Some True\<rparr>)) (exampleEnv ''PRUNE_DAYS'')))
     = TimeValue 1792411200000 \<and>
   loadConfig exampleEnv = Inr exampleConfig \<and>
   listBackupsWithDates scripted exampleConfig
       [Inr (ListObjectsV2Output None
               (Some [Some ''backups/mongodb/mydb-2024-01-15/'',
                      Some ''backups/mongodb/mydb-2026-11-01/'']))]
     = (Inr [\<lparr>name = ''mydb-2026-11-01'', date = TimeValue 1793491200000\<rparr>,
             \<lparr>name = ''mydb-2024-01-15'', date = TimeValue 1705276800000\<rparr>], [],
        [Printed (ListingLine ''env-bucket'' ''backups/mongodb/''),
         Sent (ListObjectsV2 ''env-bucket'' ''backups/mongodb/'' (Some ''/''))]) \<and>
   backupsToDelete (TimeValue 1792411200000)
       [\<lparr>name = ''mydb-2026-11-01'', date = TimeValue 1793491200000\<rparr>,
        \<lparr>name = ''mydb-2024-01-15'', date = TimeValue 1705276800000\<rparr>]
     = [\<lparr>name = ''mydb-2024-01-15'', date = TimeValue 1705276800000\<rparr>] \<and>
   dryRun (exampleOptions\<lparr>dryRun := Some True\<rparr>) = Some True \<and>
   runPrune (exampleOptions\<lparr>dryRun := Some True\<rparr>) exampleEnv utcZone exampleNow scripted
       [Inr (ListObjectsV2Output None
               (Some [Some ''backups/mongodb/mydb-2024-01-15/'',
                      Some ''backups/mongodb/mydb-2026-11-01/'']))]
     = (Exit 0, [],
        [Printed (PruneHeader 14), Printed (CutoffLine 1792411200000), Printed DryRunBanner,
         Printed (ListingLine ''env-bucket'' ''backups/mongodb/''),
         Sent (ListObjectsV2 ''env-bucket'' ''backups/mongodb/'' (Some ''/'')),
         Printed (FoundSummary 2 1 1), Printed ToBeDeletedHeader,
         Printed (ToBeDeletedLine ''mydb-2024-01-15'' (TimeValue 1705276800000)),
         Printed BlankLine, Printed DryRunComplete]) \<and>
   (\<exists>t ls.
      runPrune (exampleOptions\<lparr>dryRun := Some True\<rparr>) exampleEnv utcZone exampleNow scripted
          [Inr (ListObjectsV2Output None
                  (Some [Some ''backups/mongodb/mydb-2024-01-15/'',
                         Some ''backups/mongodb/mydb-2026-11-01/'']))]
        = (Exit 0, [], t) \<and>
      requests t = [ListObjectsV2 ''env-bucket'' ''backups/mongodb/'' (Some ''/'')] \<and>
      printed t = ls @ [ToBeDeletedHeader,
                        ToBeDeletedLine ''mydb-2024-01-15'' (TimeValue 1705276800000),
                        BlankLine, DryRunComplete]) \<and>
   deleteBackup scripted exampleConfig ''mydb-2024-01-15'' [Inr (ListObjectsV2Output None None)]
     = (Inl (NoBackupFound ''env-bucket'' ''backups/mongodb/mydb-2024-01-15''), [],
        [Sent (ListObjectsV2 ''env-bucket'' ''backups/mongodb/mydb-2024-01-15'' None)]) \<and>
   ListObjectsV2 ''env-bucket'' ''backups/mongodb/mydb-2024-01-15'' None
     \<in> set (requests [Sent (ListObjectsV2 ''env-bucket'' ''backups/mongodb/mydb-2024-01-15'' None)])"
proof -
  let ?w = "[Inr (ListObjectsV2Output None
               (Some [Some ''backups/mongodb/mydb-2024-01-15/'',
                      Some ''backups/mongodb/mydb-2026-11-01/'']))]"
  let ?new = "\<lparr>name = ''mydb-2026-11-01'', date = TimeValue 1793491200000\<rparr>"
  let ?old = "\<lparr>name = ''mydb-2024-01-15'', date = TimeValue 1705276800000\<rparr>"
  have h1: "cutoffDate utcZone exampleNow
     (fst (getPruneDays (days (exampleOptions\<lparr>dryRun := Some True\<rparr>)) (exampleEnv ''PRUNE_DAYS'')))
     = TimeValue 1792411200000"
    by code_simp
  have h2: "loadConfig exampleEnv = Inr exampleConfig"
    by code_simp
  have h3: "listBackupsWithDates scripted exampleConfig ?w
     = (Inr [?new, ?old], [],
        [Printed (ListingLine ''env-bucket'' ''backups/mongodb/''),
         Sent (ListObjectsV2 ''env-bucket'' ''backups/mongodb/'' (Some ''/''))])"
    by code_simp
  have h4: "backupsToDelete (TimeValue 1792411200000) [?new, ?old] = [?old]"
    by (simp add: backupsToDelete_def)
  have h5: "dryRun (exampleOptions\<lparr>dryRun := Some True\<rparr>) = Some True"
    by simp
  have run: "runPrune (exampleOptions\<lparr>dryRun := Some True\<rparr>) exampleEnv utcZone exampleNow scripted ?w
     = (Exit 0, [],
        [Printed (PruneHeader 14), Printed (CutoffLine 1792411200000), Printed DryRunBanner,
         Printed (ListingLine ''env-bucket'' ''backups/mongodb/''),
         Sent (ListObjectsV2 ''env-bucket'' ''backups/mongodb/'' (Some ''/'')),
         Printed (FoundSummary 2 1 1), Printed ToBeDeletedHeader,
         Printed (ToBeDeletedLine ''mydb-2024-01-15'' (TimeValue 1705276800000)),
         Printed BlankLine, Printed DryRunComplete])"
    by code_simp
  have d: "deleteBackup scripted exampleConfig ''mydb-2024-01-15'' [Inr (ListObjectsV2Output None None)]
     = (Inl (NoBackupFound ''env-bucket'' ''backups/mongodb/mydb-2024-01-15''), [],
        [Sent (ListObjectsV2 ''env-bucket'' ''backups/mongodb/mydb-2024-01-15'' None)])"
    by code_simp
  have cfg: "s3_bucket exampleConfig = ''env-bucket''"
    "listingPrefix exampleConfig = ''backups/mongodb/''"
    "backupPath exampleConfig ''mydb-2024-01-15'' = ''backups/mongodb/mydb-2024-01-15''"
    by code_simp+
  note t = dry_run_deletes_nothing
    [where tz = utcZone and now = exampleNow and options = "exampleOptions\<lparr>dryRun := Some True\<rparr>"
       and env = exampleEnv and c = 1792411200000 and cfg = exampleConfig and client = scripted
       and w = ?w and backups = "[?new, ?old]" and wa = "[]"
       and ta = "[Printed (ListingLine ''env-bucket'' ''backups/mongodb/''),
                  Sent (ListObjectsV2 ''env-bucket'' ''backups/mongodb/'' (Some ''/''))]"
       and bn = "''mydb-2024-01-15''" and wx = "[Inr (ListObjectsV2Output None None)]"
       and r = "Inl (NoBackupFound ''env-bucket'' ''backups/mongodb/mydb-2024-01-15'')"
       and wy = "[]"
       and ty = "[Sent (ListObjectsV2 ''env-bucket'' ''backups/mongodb/mydb-2024-01-15'' None)]"]
  from t h1 h2 h3 h4 h5 have
    "\<exists>t ls.
      runPrune (exampleOptions\<lparr>dryRun := Some True\<rparr>) exampleEnv utcZone exampleNow scripted ?w
        = (Exit 0, [], t) \<and>
      requests t = [ListObjectsV2 ''env-bucket'' ''backups/mongodb/'' (Some ''/'')] \<and>
      printed t = ls @ [ToBeDeletedHeader,
                        ToBeDeletedLine ''mydb-2024-01-15'' (TimeValue 1705276800000),
                        BlankLine, DryRunComplete]"
    by (simp add: cfg)
  moreover from t d have "ListObjectsV2 ''env-bucket'' ''backups/mongodb/mydb-2024-01-15'' None
     \<in> set (requests [Sent (ListObjectsV2 ''env-bucket'' ''backups/mongodb/mydb-2024-01-15'' None)])"
    by (simp add: cfg)
  ultimately show ?thesis
    using h1 h2 h3 h4 h5 run d by blast
qed

section \<open>Failures in the deletion phase\<close>

text \<open>
  C5. The loop calls \<open>deleteBackup\<close> once for every backup of \<open>toDelete\<close>, in order,
  each call on the service state the call before has left, whether that call
  failed or not. It counts the calls that returned a result and those that failed,
  prints one line for each, sends no request beyond those of the calls, and leaves
  the service in the state the last call left. The exit status is 0 when no call
  failed and 1 otherwise; a run of \<open>runPrune\<close> that reaches the loop exits with
  that status.
\<close>

theorem deletion_failures_isolated:
  "(deleteRuns client cfg bs w = (runs, wr) \<longrightarrow>
      length runs = length bs \<and>
      (\<exists>t. deleteAll client cfg bs 0 0 w =
              ((length (filter (\<lambda>run. \<not> isl (fst run)) runs),
                length (filter (\<lambda>run. isl (fst run)) runs)), wr, t) \<and>
            requests t = concat (map (\<lambda>run. requests (snd run)) runs) \<and>
            printed t = map2 reportLine bs runs) \<and>
      length (filter (\<lambda>run. \<not> isl (fst run)) runs)
        + length (filter (\<lambda>run. isl (fst run)) runs) = length bs \<and>
      (\<exists>t. deletionPhase client cfg bs w =
              (if list_all (\<lambda>run. \<not> isl (fst run)) runs then 0 else 1, wr, t))) \<and>
   (cutoffDate tz now (fst (getPruneDays (days options) (env ''PRUNE_DAYS''))) = TimeValue c \<and>
    loadConfig env = Inr cfg \<and>
    listBackupsWithDates client cfg w = (Inr backups, wa, ta) \<and>
    backupsToDelete (TimeValue c) backups \<noteq> [] \<and>
    dryRun options \<noteq> Some True \<and>
    deleteRuns client cfg (backupsToDelete (TimeValue c) backups) wa = (truns, wb)
    \<longrightarrow> (\<exists>t. runPrune options env tz now client w =
                 (Exit (if list_all (\<lambda>run. \<not> isl (fst run)) truns then 0 else 1), wb, t) \<and>
               requests t = requests ta @ concat (map (\<lambda>run. requests (snd run)) truns)))"
proof (intro conjI impI)
  assume r: "deleteRuns client cfg bs w = (runs, wr)"
  show len: "length runs = length bs"
    using r by (rule deleteRuns_length)
  from deleteAll_runs [OF r, of 0 0]
  show "\<exists>t. deleteAll client cfg bs 0 0 w =
              ((length (filter (\<lambda>run. \<not> isl (fst run)) runs),
                length (filter (\<lambda>run. isl (fst run)) runs)), wr, t) \<and>
            requests t = concat (map (\<lambda>run. requests (snd run)) runs) \<and>
            printed t = map2 reportLine bs runs"
    by simp
  show "length (filter (\<lambda>run. \<not> isl (fst run)) runs)
        + length (filter (\<lambda>run. isl (fst run)) runs) = length bs"
    using count_split [of "\<lambda>run. isl (fst run)" runs] len by simp
  from deleteAll_runs [OF r, of 0 0] no_failure_iff [of runs]
  show "\<exists>t. deletionPhase client cfg bs w =
              (if list_all (\<lambda>run. \<not> isl (fst run)) runs then 0 else 1, wr, t)"
    by (auto simp: deletionPhase_def)
next
  assume a: "cutoffDate tz now (fst (getPruneDays (days options) (env ''PRUNE_DAYS''))) = TimeValue c \<and>
    loadConfig env = Inr cfg \<and>
    listBackupsWithDates client cfg w = (Inr backups, wa, ta) \<and>
    backupsToDelete (TimeValue c) backups \<noteq> [] \<and>
    dryRun options \<noteq> Some True \<and>
    deleteRuns client cfg (backupsToDelete (TimeValue c) backups) wa = (truns, wb)"
  let ?toDelete = "backupsToDelete (TimeValue c) backups"
  let ?code = "if list_all (\<lambda>run. \<not> isl (fst run)) truns then 0 else 1 :: nat"
  obtain pd warnings where g: "getPruneDays (days options) (env ''PRUNE_DAYS'') = (pd, warnings)"
    by (cases "getPruneDays (days options) (env ''PRUNE_DAYS'')")
  from a have r: "deleteRuns client cfg ?toDelete wa = (truns, wb)"
    by simp
  from a have ne: "backups \<noteq> []"
    by (auto simp: backupsToDelete_def)
  from deleteAll_runs [OF r, of 0 0] no_failure_iff [of truns]
  obtain t4 where ph: "deletionPhase client cfg ?toDelete wa = (?code, wb, t4)"
    and rq: "requests t4 = concat (map (\<lambda>run. requests (snd run)) truns)"
    by (auto simp: deletionPhase_def)
  let ?t3 = "ta @ [Printed (FoundSummary (length backups)
                     (length (backupsToKeep (TimeValue c) backups)) (length ?toDelete))]
            @ map Printed ([ToBeDeletedHeader]
                           @ map (\<lambda>b. ToBeDeletedLine (name b) (date b)) ?toDelete
                           @ [BlankLine])"
  have body: "pruneBody options env (TimeValue c) client w = (Inr ?code, wb, ?t3 @ t4)"
    using a ne ph by (simp add: pruneBody_def Let_def)
  let ?t = "(map Printed (warnings @ [PruneHeader pd])
             @ map Printed ([CutoffLine c] @ (if dryRun options = Some True then [DryRunBanner] else [])))
            @ ?t3 @ t4"
  have "runPrune options env tz now client w = (Exit ?code, wb, ?t)"
    using a g body by (simp add: runPrune_def Let_def)
  moreover have "requests ?t = requests ta @ concat (map (\<lambda>run. requests (snd run)) truns)"
    using rq by simp
  ultimately show "\<exists>t. runPrune options env tz now client w =
                 (Exit (if list_all (\<lambda>run. \<not> isl (fst run)) truns then 0 else 1), wb, t) \<and>
               requests t = requests ta @ concat (map (\<lambda>run. requests (snd run)) truns)"
    by blast
qed

theorem deletion_failures_isolated_witness:
  "deleteRuns scripted exampleConfig
       [\<lparr>name = ''mydb-2024-01-16'', date = TimeValue 1705363200000\<rparr>,
        \<lparr>name = ''mydb-2024-01-15'', date = TimeValue 1705276800000\<rparr>]
       [Inr (ListObjectsV2Output (Some [Some ''backups/mongodb/mydb-2024-01-16/dump.gz'']) None),
        Inl ''AccessDenied'',
        Inr (ListObjectsV2Output (Some [Some ''backups/mongodb/mydb-2024-01-15/dump.gz'']) None),
        Inr DeleteObjectsOutput]
     = ([(Inl (ServiceError ''AccessDenied''),
          [Sent (ListObjectsV2 ''env-bucket'' ''backups/mongodb/mydb-2024-01-16'' None),
           Sent (DeleteObjects ''env-bucket'' [''backups/mongodb/mydb-2024-01-16/dump.gz''])]),
         (Inr \<lparr>backupName = ''mydb-2024-01-15'', deletedFiles = 1\<rparr>,
          [Sent (ListObjectsV2 ''env-bucket'' ''backups/mongodb/mydb-2024-01-15'' None),
           Sent (DeleteObjects ''env-bucket'' [''backups/mongodb/mydb-2024-01-15/dump.gz''])])],
        []) \<and>
   deleteAll scripted exampleConfig
       [\<lparr>name = ''mydb-2024-01-16'', date = TimeValue 1705363200000\<rparr>,
        \<lparr>name = ''mydb-2024-01-15'', date = TimeValue 1705276800000\<rparr>] 0 0
       [Inr (ListObjectsV2Output (Some [Some ''backups/mongodb/mydb-2024-01-16/dump.gz'']) None),
        Inl ''AccessDenied'',
        Inr (ListObjectsV2Output (Some [Some ''backups/mongodb/mydb-2024-01-15/dump.gz'']) None),
        Inr DeleteObjectsOutput]
     = ((1, 1), [],
        [Sent (ListObjectsV2 ''env-bucket'' ''backups/mongodb/mydb-2024-01-16'' None),
         Sent (DeleteObjects ''env-bucket'' [''backups/mongodb/mydb-2024-01-16/dump.gz'']),
         Printed (FailedToDelete ''mydb-2024-01-16'' (ServiceError ''AccessDenied'')),
         Sent (ListObjectsV2 ''env-bucket'' ''backups/mongodb/mydb-2024-01-15'' None),
         Sent (DeleteObjects ''env-bucket'' [''backups/mongodb/mydb-2024-01-15/dump.gz'']),
         Printed (DeletedLine ''mydb-2024-01-15'' 1)]) \<and>
   cutoffDate utcZone exampleNow (fst (getPruneDays (days exampleOptions) (exampleEnv ''PRUNE_DAYS'')))
     = TimeValue 1792411200000 \<and>
   loadConfig exampleEnv = Inr exampleConfig \<and>
   listBackupsWithDates scripted exampleConfig
       [Inr (ListObjectsV2Output None
               (Some [Some ''backups/mongodb/mydb-2024-01-15/'',
                      Some ''backups/mongodb/mydb-2024-01-16/''])),
        Inr (ListObjectsV2Output (Some [Some ''backups/mongodb/mydb-2024-01-16/dump.gz'']) None),
        Inl ''AccessDenied'',
        Inr (ListObjectsV2Output (Some [Some ''backups/mongodb/mydb-2024-01-15/dump.gz'']) None),
        Inr DeleteObjectsOutput]
     = (Inr [\<lparr>name = ''mydb-2024-01-16'', date = TimeValue 1705363200000\<rparr>,
             \<lparr>name = ''mydb-2024-01-15'', date = TimeValue 1705276800000\<rparr>],
        [Inr (ListObjectsV2Output (Some [Some ''backups/mongodb/mydb-2024-01-16/dump.gz'']) None),
         Inl ''AccessDenied'',
         Inr (ListObjectsV2Output (Some [Some ''backups/mongodb/mydb-2024-01-15/dump.gz'']) None),
         Inr DeleteObjectsOutput],
        [Printed (ListingLine ''env-bucket'' ''backups/mongodb/''),
         Sent (ListObjectsV2 ''env-bucket'' ''backups/mongodb/'' (Some ''/''))]) \<and>
   backupsToDelete (TimeValue 1792411200000)
       [\<lparr>name = ''mydb-2024-01-16'', date = TimeValue 1705363200000\<rparr>,
        \<lparr>name = ''mydb-2024-01-15'', date = TimeValue 1705276800000\<rparr>]
     = [\<lparr>name = ''mydb-2024-01-16'', date = TimeValue 1705363200000\<rparr>,
        \<lparr>name = ''mydb-2024-01-15'', date = TimeValue 1705276800000\<rparr>] \<and>
   dryRun exampleOptions \<noteq> Some True \<and>
   runPrune exampleOptions exampleEnv utcZone exampleNow scripted
       [Inr (ListObjectsV2Output None
               (Some [Some ''backups/mongodb/mydb-2024-01-15/'',
                      Some ''backups/mongodb/mydb-2024-01-16/''])),
        Inr (ListObjectsV2Output (Some [Some ''backups/mongodb/mydb-2024-01-16/dump.gz'']) None),
        Inl ''AccessDenied'',
        Inr (ListObjectsV2Output (Some [Some ''backups/mongodb/mydb-2024-01-15/dump.gz'']) None),
        Inr DeleteObjectsOutput]
     = (Exit 1, [],
        [Printed (PruneHeader 14), Printed (CutoffLine 1792411200000),
         Printed (ListingLine ''env-bucket'' ''backups/mongodb/''),
         Sent (ListObjectsV2 ''env-bucket'' ''backups/mongodb/'' (Some ''/'')),
         Printed (FoundSummary 2 0 2), Printed ToBeDeletedHeader,
         Printed (ToBeDeletedLine ''mydb-2024-01-16'' (TimeValue 1705363200000)),
         Printed (ToBeDeletedLine ''mydb-2024-01-15'' (TimeValue 1705276800000)),
         Printed BlankLine,
         Sent (ListObjectsV2 ''env-bucket'' ''backups/mongodb/mydb-2024-01-16'' None),
         Sent (DeleteObjects ''env-bucket'' [''backups/mongodb/mydb-2024-01-16/dump.gz'']),
         Printed (FailedToDelete ''mydb-2024-01-16'' (ServiceError ''AccessDenied'')),
         Sent (ListObjectsV2 ''env-bucket'' ''backups/mongodb/mydb-2024-01-15'' None),
         Sent (DeleteObjects ''env-bucket'' [''backups/mongodb/mydb-2024-01-15/dump.gz'']),
         Printed (DeletedLine ''mydb-2024-01-15'' 1),
         Printed BlankLine, Printed (PruneComplete 1), Printed (ErrorsLine 1)])"
proof -
  let ?a = "\<lparr>name = ''mydb-2024-01-16'', date = TimeValue 1705363200000\<rparr>"
  let ?b = "\<lparr>name = ''mydb-2024-01-15'', date = TimeValue 1705276800000\<rparr>"
  let ?w1 = "[Inr (ListObjectsV2Output (Some [Some ''backups/mongodb/mydb-2024-01-16/dump.gz'']) None),
        Inl ''AccessDenied'',
        Inr (ListObjectsV2Output (Some [Some ''backups/mongodb/mydb-2024-01-15/dump.gz'']) None),
        Inr DeleteObjectsOutput]"
  let ?w0 = "Inr (ListObjectsV2Output None
               (Some [Some ''backups/mongodb/mydb-2024-01-15/'',
                      Some ''backups/mongodb/mydb-2024-01-16/''])) # ?w1"
  let ?runs = "[(Inl (ServiceError ''AccessDenied''),
          [Sent (ListObjectsV2 ''env-bucket'' ''backups/mongodb/mydb-2024-01-16'' None),
           Sent (DeleteObjects ''env-bucket'' [''backups/mongodb/mydb-2024-01-16/dump.gz''])]),
         (Inr \<lparr>backupName = ''mydb-2024-01-15'', deletedFiles = 1\<rparr>,
          [Sent (ListObjectsV2 ''env-bucket'' ''backups/mongodb/mydb-2024-01-15'' None),
           Sent (DeleteObjects ''env-bucket'' [''backups/mongodb/mydb-2024-01-15/dump.gz''])])]"
  let ?ta = "[Printed (ListingLine ''env-bucket'' ''backups/mongodb/''),
         Sent (ListObjectsV2 ''env-bucket'' ''backups/mongodb/'' (Some ''/''))]"
  have h1: "deleteRuns scripted exampleConfig [?a, ?b] ?w1 = (?runs, [])"
    by code_simp
  have h2: "cutoffDate utcZone exampleNow
              (fst (getPruneDays (days exampleOptions) (exampleEnv ''PRUNE_DAYS'')))
            = TimeValue 1792411200000"
    by code_simp
  have h3: "loadConfig exampleEnv = Inr exampleConfig"
    by code_simp
  have h4: "listBackupsWithDates scripted exampleConfig ?w0 = (Inr [?a, ?b], ?w1, ?ta)"
    by code_simp
  have h5: "backupsToDelete (TimeValue 1792411200000) [?a, ?b] = [?a, ?b]"
    by (simp add: backupsToDelete_def)
  have h6: "dryRun exampleOptions \<noteq> Some True"
    by (simp add: exampleOptions_def)
  have all: "deleteAll scripted exampleConfig [?a, ?b] 0 0 ?w1
     = ((1, 1), [],
        [Sent (ListObjectsV2 ''env-bucket'' ''backups/mongodb/mydb-2024-01-16'' None),
         Sent (DeleteObjects ''env-bucket'' [''backups/mongodb/mydb-2024-01-16/dump.gz'']),
         Printed (FailedToDelete ''mydb-2024-01-16'' (ServiceError ''AccessDenied'')),
         Sent (ListObjectsV2 ''env-bucket'' ''backups/mongodb/mydb-2024-01-15'' None),
         Sent (DeleteObjects ''env-bucket'' [''backups/mongodb/mydb-2024-01-15/dump.gz'']),
         Printed (DeletedLine ''mydb-2024-01-15'' 1)])"
    by code_simp
  have run: "runPrune exampleOptions exampleEnv utcZone exampleNow scripted ?w0
     = (Exit 1, [],
        [Printed (PruneHeader 14), Printed (CutoffLine 1792411200000),
         Printed (ListingLine ''env-bucket'' ''backups/mongodb/''),
         Sent (ListObjectsV2 ''env-bucket'' ''backups/mongodb/'' (Some ''/'')),
         Printed (FoundSummary 2 0 2), Printed ToBeDeletedHeader,
         Printed (ToBeDeletedLine ''mydb-2024-01-16'' (TimeValue 1705363200000)),
         Printed (ToBeDeletedLine ''mydb-2024-01-15'' (TimeValue 1705276800000)),
         Printed BlankLine,
         Sent (ListObjectsV2 ''env-bucket'' ''backups/mongodb/mydb-2024-01-16'' None),
         Sent (DeleteObjects ''env-bucket'' [''backups/mongodb/mydb-2024-01-16/dump.gz'']),
         Printed (FailedToDelete ''mydb-2024-01-16'' (ServiceError ''AccessDenied'')),
         Sent (ListObjectsV2 ''env-bucket'' ''backups/mongodb/mydb-2024-01-15'' None),
         Sent (DeleteObjects ''env-bucket'' [''backups/mongodb/mydb-2024-01-15/dump.gz'']),
         Printed (DeletedLine ''mydb-2024-01-15'' 1),
         Printed BlankLine, Printed (PruneComplete 1), Printed (ErrorsLine 1)])"
  proof -
    note t = deletion_failures_isolated
      [where client = scripted and cfg = exampleConfig and bs = "[?a, ?b]" and w = ?w0
         and runs = ?runs and wr = "[]" and tz = utcZone and now = exampleNow
         and options = exampleOptions and env = exampleEnv and c = 1792411200000
         and backups = "[?a, ?b]" and wa = ?w1 and ta = ?ta and truns = ?runs and wb = "[]",
       THEN conjunct2]
    from t h1 h2 h3 h4 h5 h6 obtain t where
      "runPrune exampleOptions exampleEnv utcZone exampleNow scripted ?w0 = (Exit 1, [], t)"
      by auto
    moreover have "snd (snd (runPrune exampleOptions exampleEnv utcZone exampleNow scripted ?w0))
       = [Printed (PruneHeader 14), Printed (CutoffLine 1792411200000),
         Printed (ListingLine ''env-bucket'' ''backups/mongodb/''),
         Sent (ListObjectsV2 ''env-bucket'' ''backups/mongodb/'' (Some ''/'')),
         Printed (FoundSummary 2 0 2), Printed ToBeDeletedHeader,
         Printed (ToBeDeletedLine ''mydb-2024-01-16'' (TimeValue 1705363200000)),
         Printed (ToBeDeletedLine ''mydb-2024-01-15'' (TimeValue 1705276800000)),
         Printed BlankLine,
         Sent (ListObjectsV2 ''env-bucket'' ''backups/mongodb/mydb-2024-01-16'' None),
         Sent (DeleteObjects ''env-bucket'' [''backups/mongodb/mydb-2024-01-16/dump.gz'']),
         Printed (FailedToDelete ''mydb-2024-01-16'' (ServiceError ''AccessDenied'')),
         Sent (ListObjectsV2 ''env-bucket'' ''backups/mongodb/mydb-2024-01-15'' None),
         Sent (DeleteObjects ''env-bucket'' [''backups/mongodb/mydb-2024-01-15/dump.gz'']),
         Printed (DeletedLine ''mydb-2024-01-15'' 1),
         Printed BlankLine, Printed (PruneComplete 1), Printed (ErrorsLine 1)]"
      by code_simp
    ultimately show ?thesis
      by simp
  qed
  from h1 all h2 h3 h4 h5 h6 run show ?thesis
    by blast
qed

section \<open>Retention-days resolution\<close>

text \<open>
  C7. As the claim is worded it fails on a variable that is set to the empty
  string: the value is present and no integer can be read from it, yet no warning
  is written. The program's test is \<open>if (envDays)\<close>, which an empty string fails.
\<close>

theorem getPruneDays_empty_value_silent:
  "parseInt [] = None \<and> getPruneDays None (Some []) = (14, [])"
proof -
  have "parseInt [] = None"
    by code_simp
  then show ?thesis
    by (simp add: getPruneDays_def DEFAULT_PRUNE_DAYS_def)
qed

text \<open>
  C7, amended. An explicit \<open>days\<close> option is returned as it is. Without it,
  \<open>PRUNE_DAYS\<close> is used when it is set to a non-empty string of which \<open>parseInt\<close>
  reads an integer above 0. A non-empty value of which \<open>parseInt\<close> reads no integer,
  or one that is not above 0, writes the warning and gives the default 14; so do
  \<open>"abc"\<close> and \<open>"0"\<close>. An unset or empty variable gives 14 without a warning. The
  function always returns: nothing here aborts the run.
\<close>

theorem getPruneDays_resolution:
  "getPruneDays (Some d) e = (d, []) \<and>
   getPruneDays None None = (14, []) \<and>
   getPruneDays None (Some []) = (14, []) \<and>
   (\<forall>n. s \<noteq> [] \<and> parseInt s = Some n \<and> 0 < n \<longrightarrow> getPruneDays None (Some s) = (n, [])) \<and>
   (s \<noteq> [] \<and> (\<forall>n. parseInt s = Some n \<longrightarrow> n \<le> 0)
      \<longrightarrow> getPruneDays None (Some s) = (14, [InvalidPruneDaysWarning s])) \<and>
   getPruneDays None (Some ''abc'') = (14, [InvalidPruneDaysWarning ''abc'']) \<and>
   getPruneDays None (Some ''0'') = (14, [InvalidPruneDaysWarning ''0''])"
proof -
  have abc: "parseInt ''abc'' = None"
    by code_simp
  have zero: "parseInt ''0'' = Some 0"
    by code_simp
  show ?thesis
    by (auto simp: getPruneDays_def DEFAULT_PRUNE_DAYS_def abc zero split: option.splits)
qed

theorem getPruneDays_resolution_witness:
  "''30'' \<noteq> [] \<and> parseInt ''30'' = Some 30 \<and> (0::int) < 30 \<and>
   getPruneDays None (Some ''30'') = (30, []) \<and>
   ''-5 days'' \<noteq> [] \<and> parseInt ''-5 days'' = Some (- 5) \<and> (- 5 :: int) \<le> 0 \<and>
   getPruneDays None (Some ''-5 days'') = (14, [InvalidPruneDaysWarning ''-5 days''])"
proof -
  have p30: "parseInt ''30'' = Some 30"
    by code_simp
  have pm5: "parseInt ''-5 days'' = Some (- 5)"
    by code_simp
  show ?thesis
    using getPruneDays_resolution [of 0 None "''30''"]
          getPruneDays_resolution [of 0 None "''-5 days''"] p30 pm5
    by simp
qed

end
